theory Spec2Isabelle
  imports Main "HOL-Library.Sublist" "HOL-Library.AList"
begin

text \<open>
  CineMap is a browser application that keeps a personal movie collection: filmoteca.js
  holds persistence in local storage and the pure list operations, api.js talks to the
  TMDB catalog, ui.js renders the list and wires the forms. This theory embeds the
  functions of the three files that carry the application's logic and proves what they
  do. The definitions come first: JavaScript values and the collection engine, numbers
  and strings as text, JSON and local storage, persistence, the catalog client, the add
  flow, rendering. The theorems follow.
\<close>

section \<open>JavaScript values\<close>

text \<open>
  The application is untyped JavaScript: a movie is an object literal, the collection is
  an array of such objects, and the same values travel through \<^verbatim>\<open>JSON.stringify\<close> and
  \<^verbatim>\<open>JSON.parse\<close>. The model therefore works on a datatype of JavaScript values.

  \<^item> A number is a finite decimal \<open>Dec m k\<close>, standing for \<open>m / 10 ^ k\<close>. Numbers are
    kept in normal form (\<open>k = 0\<close> or \<open>m\<close> not divisible by ten), so that equality of
    numbers is equality of terms. The binary rounding of IEEE doubles, \<open>NaN\<close> and the
    infinities are not part of the model.
  \<^item> A string is a list of code units, here restricted to \<open>char\<close> (U+0000 to U+00FF).
  \<^item> An object is the list of its own properties in enumeration order; a well-formed
    object has distinct keys.
\<close>

datatype jsnum = Dec int nat

datatype jsval =
    JUndefined
  | JNull
  | JBool bool
  | JNum jsnum
  | JStr string
  | JArr "jsval list"
  | JObj "(string \<times> jsval) list"

type_synonym jsobj = "(string \<times> jsval) list"

abbreviation JInt :: "int \<Rightarrow> jsval" where
  "JInt n \<equiv> JNum (Dec n 0)"

text \<open>Truthiness (\<^verbatim>\<open>ToBoolean\<close>): what \<^verbatim>\<open>x ? a : b\<close>, \<^verbatim>\<open>!x\<close>, \<^verbatim>\<open>x && y\<close> and \<^verbatim>\<open>x || y\<close> test.\<close>

fun truthy :: "jsval \<Rightarrow> bool" where
  "truthy JUndefined = False"
| "truthy JNull = False"
| "truthy (JBool b) = b"
| "truthy (JNum (Dec m k)) = (m \<noteq> 0)"
| "truthy (JStr s) = (s \<noteq> [])"
| "truthy (JArr xs) = True"
| "truthy (JObj ps) = True"

text \<open>\<^verbatim>\<open>a || b\<close>\<close>

definition jsOr :: "jsval \<Rightarrow> jsval \<Rightarrow> jsval" where
  "jsOr a b = (if truthy a then a else b)"

text \<open>
  \<^verbatim>\<open>a === b\<close> where one side is a primitive handed in by a caller. Primitives compare by
  value; an object or an array is only ever identical to itself, and no caller passes a
  reference to a stored field, so such a comparison is false.
\<close>

fun strictEq :: "jsval \<Rightarrow> jsval \<Rightarrow> bool" where
  "strictEq (JArr xs) b = False"
| "strictEq (JObj ps) b = False"
| "strictEq a b = (a = b)"

text \<open>\<^verbatim>\<open>movie.key\<close> on an object: the property's value, or \<^verbatim>\<open>undefined\<close> when absent.\<close>

definition get :: "jsobj \<Rightarrow> string \<Rightarrow> jsval" where
  "get obj key = (case map_of obj key of Some v \<Rightarrow> v | None \<Rightarrow> JUndefined)"

text \<open>
  \<^verbatim>\<open>{ ...a, ...b }\<close>: a fresh object with the properties of \<open>a\<close> in their order, then each
  property of \<open>b\<close> assigned in turn; assigning an existing key replaces its value in
  place, a new key is appended.
\<close>

definition spread :: "jsobj \<Rightarrow> jsobj \<Rightarrow> jsobj" where
  "spread a b = foldl (\<lambda>acc (k, v). AList.update k v acc) a b"

section \<open>Collection engine (filmoteca.js)\<close>

text \<open>\<^verbatim>\<open>const addMovie = (movies, newMovie) => [...movies, newMovie]\<close>\<close>

definition addMovie :: "jsobj list \<Rightarrow> jsobj \<Rightarrow> jsobj list" where
  "addMovie movies newMovie = movies @ [newMovie]"

text \<open>
  \<^verbatim>\<open>const updateMovie = (movies, id, updates) =>
  movies.map(movie => (movie.id === id ? { ...movie, ...updates } : movie))\<close>
\<close>

definition updateMovie :: "jsobj list \<Rightarrow> jsval \<Rightarrow> jsobj \<Rightarrow> jsobj list" where
  "updateMovie movies i updates =
     map (\<lambda>movie. if strictEq (get movie ''id'') i then spread movie updates else movie) movies"

text \<open>\<^verbatim>\<open>const deleteMovie = (movies, id) => movies.filter(movie => movie.id !== id)\<close>\<close>

definition deleteMovie :: "jsobj list \<Rightarrow> jsval \<Rightarrow> jsobj list" where
  "deleteMovie movies i = filter (\<lambda>movie. \<not> strictEq (get movie ''id'') i) movies"

text \<open>\<^verbatim>\<open>const movieExists = (movies, tmdbId) => movies.some(movie => movie.id === tmdbId)\<close>\<close>

definition movieExists :: "jsobj list \<Rightarrow> jsval \<Rightarrow> bool" where
  "movieExists movies tmdbId = list_ex (\<lambda>movie. strictEq (get movie ''id'') tmdbId) movies"

text \<open>\<^verbatim>\<open>const rateMovie = (movies, id, rating) => updateMovie(movies, id, { rating })\<close>\<close>

definition rateMovie :: "jsobj list \<Rightarrow> jsval \<Rightarrow> jsval \<Rightarrow> jsobj list" where
  "rateMovie movies i rating = updateMovie movies i [(''rating'', rating)]"

text \<open>
  \<^verbatim>\<open>const listMoviesByDirector = (movies, directorName) =>
  movies.filter(movie => movie.director === directorName)\<close>
  The name comes from a text input, so it is a string.
\<close>

definition listMoviesByDirector :: "jsobj list \<Rightarrow> string \<Rightarrow> jsobj list" where
  "listMoviesByDirector movies directorName =
     filter (\<lambda>movie. strictEq (get movie ''director'') (JStr directorName)) movies"

text \<open>
  Errors a JavaScript operation can throw, as values. \<open>OutOfModel\<close> is not thrown by
  JavaScript: it marks an input on which the platform succeeds with a value that this
  model cannot hold, a string with a code unit above U+00FF.
\<close>

datatype js_error = TypeError | SyntaxError | OutOfModel

text \<open>
  \<^verbatim>\<open>movie.genres && movie.genres.includes(genreName)\<close>, as the filter callback's verdict.
  A falsy \<open>genres\<close> (absent, \<^verbatim>\<open>null\<close>, the empty string, zero, \<^verbatim>\<open>false\<close>) is itself the
  result of \<^verbatim>\<open>&&\<close> and rejects the element. Otherwise \<^verbatim>\<open>includes\<close> is looked up on the
  value: a string tests for a contiguous substring, an array tests for an element equal to
  the name, and any other truthy value has no callable \<^verbatim>\<open>includes\<close>, so the call throws.
\<close>

definition genreMatches :: "jsobj \<Rightarrow> string \<Rightarrow> js_error + bool" where
  "genreMatches movie genreName =
     (let g = get movie ''genres'' in
      if \<not> truthy g then Inr False
      else (case g of
              JStr s \<Rightarrow> Inr (sublist genreName s)
            | JArr xs \<Rightarrow> Inr (list_ex (\<lambda>x. strictEq x (JStr genreName)) xs)
            | _ \<Rightarrow> Inl TypeError))"

text \<open>\<^verbatim>\<open>Array.prototype.filter\<close> with a callback that may throw: the first throw aborts.\<close>

fun filterE :: "('a \<Rightarrow> js_error + bool) \<Rightarrow> 'a list \<Rightarrow> js_error + 'a list" where
  "filterE p [] = Inr []"
| "filterE p (x # xs) =
     (case p x of
        Inl e \<Rightarrow> Inl e
      | Inr keep \<Rightarrow>
          (case filterE p xs of
             Inl e \<Rightarrow> Inl e
           | Inr ys \<Rightarrow> Inr (if keep then x # ys else ys)))"

text \<open>
  \<^verbatim>\<open>const listMoviesByGenre = (movies, genreName) =>
  movies.filter(movie => movie.genres && movie.genres.includes(genreName))\<close>
\<close>

definition listMoviesByGenre :: "jsobj list \<Rightarrow> string \<Rightarrow> js_error + jsobj list" where
  "listMoviesByGenre movies genreName = filterE (\<lambda>movie. genreMatches movie genreName) movies"

text \<open>
  The filters as the specification words them: the elements whose \<open>director\<close> equals the
  name, and the elements whose \<open>genres\<close> string contains the name as a substring.
\<close>

definition directorIs :: "string \<Rightarrow> jsobj \<Rightarrow> bool" where
  "directorIs name movie = (get movie ''director'' = JStr name)"

definition genresContain :: "string \<Rightarrow> jsobj \<Rightarrow> bool" where
  "genresContain name movie = (case get movie ''genres'' of JStr s \<Rightarrow> sublist name s | _ \<Rightarrow> False)"

definition spec_byDirector :: "jsobj list \<Rightarrow> string \<Rightarrow> jsobj list" where
  "spec_byDirector movies name = filter (directorIs name) movies"

definition spec_byGenre :: "jsobj list \<Rightarrow> string \<Rightarrow> jsobj list" where
  "spec_byGenre movies name = filter (genresContain name) movies"

text \<open>The data model's typing of \<open>genres\<close>: a string, or absent.\<close>

definition genresTyped :: "jsobj \<Rightarrow> bool" where
  "genresTyped movie =
     (case get movie ''genres'' of JStr s \<Rightarrow> True | JUndefined \<Rightarrow> True | JNull \<Rightarrow> True | _ \<Rightarrow> False)"

section \<open>Numbers and strings as text\<close>

definition digitChar :: "nat \<Rightarrow> char" where
  "digitChar d = ''0123456789'' ! d"

fun showNat :: "nat \<Rightarrow> string" where
  "showNat n = (if n < 10 then [digitChar n] else showNat (n div 10) @ [digitChar (n mod 10)])"

declare showNat.simps [simp del]

text \<open>The \<open>k\<close> digits of \<open>f\<close> after the decimal point, zero-padded on the left.\<close>

fun fracDigits :: "nat \<Rightarrow> nat \<Rightarrow> string" where
  "fracDigits 0 f = []"
| "fracDigits (Suc k) f = fracDigits k (f div 10) @ [digitChar (f mod 10)]"

text \<open>
  \<^verbatim>\<open>Number::toString\<close> in plain decimal notation, which is what JavaScript prints for a
  number \<open>x\<close> with \<open>1e-6 \<le> |x| < 1e21\<close> (and for zero); beyond that range JavaScript
  switches to exponent notation, which is not modelled.
\<close>

fun showNum :: "jsnum \<Rightarrow> string" where
  "showNum (Dec m k) =
     (if m < 0 then ''-'' else [])
     @ showNat (nat \<bar>m\<bar> div 10 ^ k)
     @ (if k = 0 then [] else ''.'' @ fracDigits k (nat \<bar>m\<bar> mod 10 ^ k))"

text \<open>\<^verbatim>\<open>Array.prototype.join\<close> on strings.\<close>

fun joinWith :: "string \<Rightarrow> string list \<Rightarrow> string" where
  "joinWith sep [] = []"
| "joinWith sep [x] = x"
| "joinWith sep (x # y # ys) = x @ sep @ joinWith sep (y # ys)"

definition nullish :: "jsval \<Rightarrow> bool" where
  "nullish v = (v = JUndefined \<or> v = JNull)"

text \<open>
  \<^verbatim>\<open>ToString\<close>, as a template literal or \<^verbatim>\<open>join\<close> applies it. An array joins its elements
  with a comma, printing \<^verbatim>\<open>null\<close> and \<^verbatim>\<open>undefined\<close> elements as nothing; a plain object
  prints as \<^verbatim>\<open>[object Object]\<close>.
\<close>

fun toStr :: "jsval \<Rightarrow> string" where
  "toStr JUndefined = ''undefined''"
| "toStr JNull = ''null''"
| "toStr (JBool b) = (if b then ''true'' else ''false'')"
| "toStr (JNum n) = showNum n"
| "toStr (JStr s) = s"
| "toStr (JArr xs) = joinWith '','' (map (\<lambda>x. if nullish x then [] else toStr x) xs)"
| "toStr (JObj ps) = ''[object Object]''"

text \<open>
  \<^verbatim>\<open>v.key\<close> on a value that is neither \<^verbatim>\<open>null\<close> nor \<^verbatim>\<open>undefined\<close>. The keys read by this
  program are never built-in properties of strings, numbers, booleans or arrays, so on
  those the read gives \<^verbatim>\<open>undefined\<close>.
\<close>

definition field :: "jsval \<Rightarrow> string \<Rightarrow> jsval" where
  "field v key = (case v of JObj ps \<Rightarrow> get ps key | _ \<Rightarrow> JUndefined)"

section \<open>The platform: JSON text and local storage\<close>

subsection \<open>\<^verbatim>\<open>JSON.stringify\<close>\<close>

definition hexChar :: "nat \<Rightarrow> char" where
  "hexChar d = ''0123456789abcdef'' ! d"

text \<open>
  One code unit inside a quoted JSON string: the quotation mark and the backslash are
  escaped, the control characters below U+0020 use their short escape or \<^verbatim>\<open>\u00XX\<close>, and
  everything else stands for itself.
\<close>

definition escapeChar :: "char \<Rightarrow> string" where
  "escapeChar c =
     (if c = CHR 0x22 then [CHR 0x5C, CHR 0x22]
      else if c = CHR 0x5C then [CHR 0x5C, CHR 0x5C]
      else if c = CHR 0x08 then [CHR 0x5C, CHR ''b'']
      else if c = CHR 0x0C then [CHR 0x5C, CHR ''f'']
      else if c = CHR 0x0A then [CHR 0x5C, CHR ''n'']
      else if c = CHR 0x0D then [CHR 0x5C, CHR ''r'']
      else if c = CHR 0x09 then [CHR 0x5C, CHR ''t'']
      else if (of_char c :: nat) < 32
        then [CHR 0x5C, CHR ''u'', CHR ''0'', CHR ''0'',
              hexChar (of_char c div 16), hexChar (of_char c mod 16)]
      else [c])"

definition quoteJSON :: "string \<Rightarrow> string" where
  "quoteJSON s = [CHR 0x22] @ concat (map escapeChar s) @ [CHR 0x22]"

text \<open>
  The text of a value other than \<^verbatim>\<open>undefined\<close>, without any white space. An array prints
  an \<^verbatim>\<open>undefined\<close> element as \<^verbatim>\<open>null\<close>; an object leaves out a property whose value is
  \<^verbatim>\<open>undefined\<close>.
\<close>

fun serialize :: "jsval \<Rightarrow> string" where
  "serialize JUndefined = ''null''"
| "serialize JNull = ''null''"
| "serialize (JBool b) = (if b then ''true'' else ''false'')"
| "serialize (JNum n) = showNum n"
| "serialize (JStr s) = quoteJSON s"
| "serialize (JArr xs) = ''['' @ joinWith '','' (map serialize xs) @ '']''"
| "serialize (JObj ps) =
     ''{'' @ joinWith '',''
              (map (\<lambda>(k, v). quoteJSON k @ '':'' @ serialize v)
                   (filter (\<lambda>(k, v). v \<noteq> JUndefined) ps)) @ ''}''"

text \<open>\<^verbatim>\<open>JSON.stringify(v)\<close>: \<^verbatim>\<open>undefined\<close> (here \<open>None\<close>) for \<^verbatim>\<open>undefined\<close>, else the text.\<close>

definition JSON_stringify :: "jsval \<Rightarrow> string option" where
  "JSON_stringify v = (if v = JUndefined then None else Some (serialize v))"

subsection \<open>\<^verbatim>\<open>JSON.parse\<close>\<close>

text \<open>White space between tokens: space, tab, line feed, carriage return.\<close>

definition isWs :: "char \<Rightarrow> bool" where
  "isWs c = (c = CHR '' '' \<or> c = CHR 0x09 \<or> c = CHR 0x0A \<or> c = CHR 0x0D)"

definition skipWs :: "string \<Rightarrow> string" where
  "skipWs s = dropWhile isWs s"

definition isDigit :: "char \<Rightarrow> bool" where
  "isDigit c = (48 \<le> (of_char c :: nat) \<and> (of_char c :: nat) \<le> 57)"

definition digitVal :: "char \<Rightarrow> nat" where
  "digitVal c = of_char c - 48"

definition digitsVal :: "string \<Rightarrow> nat" where
  "digitsVal ds = foldl (\<lambda>a c. 10 * a + digitVal c) 0 ds"

text \<open>The normal form of \<open>m / 10 ^ k\<close>: trailing zeros after the point are dropped.\<close>

fun normDec :: "int \<Rightarrow> nat \<Rightarrow> jsnum" where
  "normDec m 0 = Dec m 0"
| "normDec m (Suc k) = (if m mod 10 = 0 then normDec (m div 10) k else Dec m (Suc k))"

text \<open>
  The number written with the digits \<open>ds\<close>, of which the last \<open>k\<close> follow the decimal
  point, negated if \<open>neg\<close>, times ten to the \<open>e\<close>.
\<close>

definition mkNum :: "bool \<Rightarrow> string \<Rightarrow> nat \<Rightarrow> int \<Rightarrow> jsnum" where
  "mkNum neg ds k e =
     (let m = (if neg then - int (digitsVal ds) else int (digitsVal ds))
      in if int k \<le> e then Dec (m * 10 ^ nat (e - int k)) 0
         else normDec m (nat (int k - e)))"

text \<open>The optional exponent part, after integer and fraction digits have been read.\<close>

definition parseExponent :: "bool \<Rightarrow> string \<Rightarrow> nat \<Rightarrow> string \<Rightarrow> (jsnum \<times> string) option" where
  "parseExponent neg ds k s =
     (case s of
        [] \<Rightarrow> Some (mkNum neg ds k 0, s)
      | c # r \<Rightarrow>
          (if c = CHR ''e'' \<or> c = CHR ''E''
           then (let eneg = (case r of [] \<Rightarrow> False | d # r' \<Rightarrow> d = CHR ''-'');
                     r1 = (case r of [] \<Rightarrow> r
                           | d # r' \<Rightarrow> if d = CHR ''-'' \<or> d = CHR ''+'' then r' else r);
                     ed = takeWhile isDigit r1
                 in if ed = [] then None
                    else Some (mkNum neg ds k
                                 (if eneg then - int (digitsVal ed) else int (digitsVal ed)),
                               dropWhile isDigit r1))
           else Some (mkNum neg ds k 0, s)))"

text \<open>
  A JSON number: an optional minus sign, the integer digits without a leading zero, an
  optional fraction with at least one digit, an optional exponent. \<open>None\<close> when the text
  does not start with a number.
\<close>

definition parseNumber :: "string \<Rightarrow> (jsnum \<times> string) option" where
  "parseNumber s =
     (let neg = (case s of [] \<Rightarrow> False | c # r \<Rightarrow> c = CHR ''-'');
          s1 = (if neg then tl s else s);
          ip = takeWhile isDigit s1;
          s2 = dropWhile isDigit s1
      in if ip = [] \<or> (1 < length ip \<and> hd ip = CHR ''0'') then None
         else (case s2 of
                 [] \<Rightarrow> parseExponent neg ip 0 s2
               | c # r \<Rightarrow>
                   (if c = CHR ''.''
                    then (let fp = takeWhile isDigit r
                          in if fp = [] then None
                             else parseExponent neg (ip @ fp) (length fp) (dropWhile isDigit r))
                    else parseExponent neg ip 0 s2)))"

definition hexVal :: "char \<Rightarrow> nat option" where
  "hexVal c =
     (let n = (of_char c :: nat)
      in if 48 \<le> n \<and> n \<le> 57 then Some (n - 48)
         else if 97 \<le> n \<and> n \<le> 102 then Some (n - 87)
         else if 65 \<le> n \<and> n \<le> 70 then Some (n - 55)
         else None)"

text \<open>The code unit of \<^verbatim>\<open>\uXXXX\<close>, given the four characters after the \<^verbatim>\<open>u\<close>.\<close>

definition hex4 :: "char \<Rightarrow> char \<Rightarrow> char \<Rightarrow> char \<Rightarrow> nat option" where
  "hex4 a b c d =
     (case (hexVal a, hexVal b, hexVal c, hexVal d) of
        (Some x, Some y, Some z, Some w) \<Rightarrow> Some (((x * 16 + y) * 16 + z) * 16 + w)
      | _ \<Rightarrow> None)"

text \<open>The character that a one-letter escape stands for.\<close>

definition simpleEscape :: "char \<Rightarrow> char option" where
  "simpleEscape e =
     (if e = CHR 0x22 then Some (CHR 0x22)
      else if e = CHR 0x5C then Some (CHR 0x5C)
      else if e = CHR ''/'' then Some (CHR ''/'')
      else if e = CHR ''b'' then Some (CHR 0x08)
      else if e = CHR ''f'' then Some (CHR 0x0C)
      else if e = CHR ''n'' then Some (CHR 0x0A)
      else if e = CHR ''r'' then Some (CHR 0x0D)
      else if e = CHR ''t'' then Some (CHR 0x09)
      else None)"

text \<open>
  The inside of a string, after the opening quotation mark, up to and including the
  closing one. A raw control character, an unknown escape and a missing closing mark are
  syntax errors.
\<close>

fun parseChars :: "string \<Rightarrow> js_error + (string \<times> string)" where
  "parseChars [] = Inl SyntaxError"
| "parseChars (c # s) =
     (if c = CHR 0x22 then Inr ([], s)
      else if c = CHR 0x5C
      then (case s of
              [] \<Rightarrow> Inl SyntaxError
            | e # r \<Rightarrow>
                (if e = CHR ''u''
                 then (case r of
                         h1 # h2 # h3 # h4 # r' \<Rightarrow>
                           (case hex4 h1 h2 h3 h4 of
                              None \<Rightarrow> Inl SyntaxError
                            | Some n \<Rightarrow>
                                (case parseChars r' of
                                   Inl err \<Rightarrow> Inl err
                                 | Inr (str, rest) \<Rightarrow>
                                     (if n < 256 then Inr (char_of n # str, rest)
                                      else Inl OutOfModel)))
                       | _ \<Rightarrow> Inl SyntaxError)
                 else (case simpleEscape e of
                         None \<Rightarrow> Inl SyntaxError
                       | Some x \<Rightarrow>
                           (case parseChars r of
                              Inl err \<Rightarrow> Inl err
                            | Inr (str, rest) \<Rightarrow> Inr (x # str, rest)))))
      else if (of_char c :: nat) < 32 then Inl SyntaxError
      else (case parseChars s of
              Inl err \<Rightarrow> Inl err
            | Inr (str, rest) \<Rightarrow> Inr (c # str, rest)))"

text \<open>
  The object built from the members in the order read: a repeated key keeps its first
  position and takes the last value.
\<close>

definition objectOf :: "(string \<times> jsval) list \<Rightarrow> jsobj" where
  "objectOf members = foldl (\<lambda>acc (k, v). AList.update k v acc) [] members"

text \<open>
  A value, the elements of an array after its opening bracket, the members of an object
  after its opening brace. Each function returns what it read and the text left over.
  The first argument bounds the calls still allowed; every call on the way uses up at
  least one character of the text, so the length of the text is enough.
\<close>

fun parseValue :: "nat \<Rightarrow> string \<Rightarrow> js_error + (jsval \<times> string)"
  and parseElements :: "nat \<Rightarrow> string \<Rightarrow> js_error + (jsval list \<times> string)"
  and parseMembers :: "nat \<Rightarrow> string \<Rightarrow> js_error + ((string \<times> jsval) list \<times> string)"
where
  "parseValue 0 s = Inl SyntaxError"
| "parseValue (Suc n) s =
     (case s of
        [] \<Rightarrow> Inl SyntaxError
      | c # r \<Rightarrow>
          (if c = CHR ''{''
           then (case skipWs r of
                   [] \<Rightarrow> Inl SyntaxError
                 | c' # r' \<Rightarrow>
                     (if c' = CHR ''}'' then Inr (JObj [], r')
                      else (case parseMembers n (c' # r') of
                              Inl err \<Rightarrow> Inl err
                            | Inr (members, rest) \<Rightarrow> Inr (JObj (objectOf members), rest))))
           else if c = CHR ''[''
           then (case skipWs r of
                   [] \<Rightarrow> Inl SyntaxError
                 | c' # r' \<Rightarrow>
                     (if c' = CHR '']'' then Inr (JArr [], r')
                      else (case parseElements n (c' # r') of
                              Inl err \<Rightarrow> Inl err
                            | Inr (elements, rest) \<Rightarrow> Inr (JArr elements, rest))))
           else if c = CHR 0x22
           then (case parseChars r of
                   Inl err \<Rightarrow> Inl err
                 | Inr (str, rest) \<Rightarrow> Inr (JStr str, rest))
           else if take 4 s = ''null'' then Inr (JNull, drop 4 s)
           else if take 4 s = ''true'' then Inr (JBool True, drop 4 s)
           else if take 5 s = ''false'' then Inr (JBool False, drop 5 s)
           else (case parseNumber s of
                   None \<Rightarrow> Inl SyntaxError
                 | Some (num, rest) \<Rightarrow> Inr (JNum num, rest))))"
| "parseElements 0 s = Inl SyntaxError"
| "parseElements (Suc n) s =
     (case parseValue n (skipWs s) of
        Inl err \<Rightarrow> Inl err
      | Inr (v, r) \<Rightarrow>
          (case skipWs r of
             [] \<Rightarrow> Inl SyntaxError
           | c # r' \<Rightarrow>
               (if c = CHR '','' then
                  (case parseElements n r' of
                     Inl err \<Rightarrow> Inl err
                   | Inr (vs, rest) \<Rightarrow> Inr (v # vs, rest))
                else if c = CHR '']'' then Inr ([v], r')
                else Inl SyntaxError)))"
| "parseMembers 0 s = Inl SyntaxError"
| "parseMembers (Suc n) s =
     (case skipWs s of
        [] \<Rightarrow> Inl SyntaxError
      | q # r \<Rightarrow>
          (if q \<noteq> CHR 0x22 then Inl SyntaxError
           else (case parseChars r of
                   Inl err \<Rightarrow> Inl err
                 | Inr (key, r1) \<Rightarrow>
                     (case skipWs r1 of
                        [] \<Rightarrow> Inl SyntaxError
                      | colon # r2 \<Rightarrow>
                          (if colon \<noteq> CHR '':'' then Inl SyntaxError
                           else (case parseValue n (skipWs r2) of
                                   Inl err \<Rightarrow> Inl err
                                 | Inr (v, r3) \<Rightarrow>
                                     (case skipWs r3 of
                                        [] \<Rightarrow> Inl SyntaxError
                                      | c # r4 \<Rightarrow>
                                          (if c = CHR '','' then
                                             (case parseMembers n r4 of
                                                Inl err \<Rightarrow> Inl err
                                              | Inr (ms, rest) \<Rightarrow> Inr ((key, v) # ms, rest))
                                           else if c = CHR ''}'' then Inr ([(key, v)], r4)
                                           else Inl SyntaxError))))))))"

text \<open>
  \<^verbatim>\<open>JSON.parse(text)\<close>: one value with optional white space around it and nothing else,
  or a \<^verbatim>\<open>SyntaxError\<close>.
\<close>

definition JSON_parse :: "string \<Rightarrow> js_error + jsval" where
  "JSON_parse text =
     (case parseValue (length text) (skipWs text) of
        Inl err \<Rightarrow> Inl err
      | Inr (v, rest) \<Rightarrow> if skipWs rest = [] then Inr v else Inl SyntaxError)"

subsection \<open>Values that JSON text can carry\<close>

text \<open>
  A number that JavaScript prints in plain decimal notation: zero, or of magnitude at
  least \<open>1e-6\<close> and below \<open>1e21\<close>.
\<close>

definition plainRange :: "int \<Rightarrow> nat \<Rightarrow> bool" where
  "plainRange m k = (m = 0 \<or> (10 ^ k \<le> \<bar>m\<bar> * 10 ^ 6 \<and> \<bar>m\<bar> < 10 ^ (21 + k)))"

text \<open>
  A key that JavaScript treats as an integer index and enumerates before all other keys,
  whatever the order of insertion: a canonical decimal numeral.
\<close>

definition arrayIndexKey :: "string \<Rightarrow> bool" where
  "arrayIndexKey key =
     (key \<noteq> [] \<and> list_all isDigit key \<and> \<not> (1 < length key \<and> hd key = CHR ''0''))"

text \<open>
  The well-formed values: no \<^verbatim>\<open>undefined\<close> anywhere, numbers in normal form and in the
  plain range, objects with distinct keys none of which is an integer index. A movie list
  built by this program from catalog data is of this kind.
\<close>

fun jsonable :: "jsval \<Rightarrow> bool" where
  "jsonable JUndefined = False"
| "jsonable JNull = True"
| "jsonable (JBool b) = True"
| "jsonable (JNum (Dec m k)) = ((k = 0 \<or> m mod 10 \<noteq> 0) \<and> plainRange m k)"
| "jsonable (JStr s) = True"
| "jsonable (JArr xs) = list_all jsonable xs"
| "jsonable (JObj ps) =
     (distinct (map fst ps) \<and> list_all (\<lambda>p. \<not> arrayIndexKey (fst p) \<and> jsonable (snd p)) ps)"

subsection \<open>Shapes of serialized text\<close>

text \<open>What may follow a value inside a serialized text: nothing, a comma, a closing bracket.\<close>

definition delimited :: "string \<Rightarrow> bool" where
  "delimited rest = (rest = [] \<or> hd rest = CHR '','' \<or> hd rest = CHR '']'' \<or> hd rest = CHR ''}'')"

text \<open>The characters a serialized value can begin with.\<close>

definition valueStart :: "char \<Rightarrow> bool" where
  "valueStart c = (c = CHR ''n'' \<or> c = CHR ''t'' \<or> c = CHR ''f'' \<or> c = CHR ''-'' \<or> isDigit c
                   \<or> c = CHR 0x22 \<or> c = CHR ''['' \<or> c = CHR ''{'')"

text \<open>The text of one property inside a serialized object.\<close>

definition memberText :: "string \<times> jsval \<Rightarrow> string" where
  "memberText p = quoteJSON (fst p) @ '':'' @ serialize (snd p)"

section \<open>Persistence (filmoteca.js)\<close>

text \<open>
  \<^verbatim>\<open>localStorage\<close>: a finite map from key strings to value strings. \<^verbatim>\<open>getItem\<close> gives
  \<^verbatim>\<open>null\<close> (here \<open>None\<close>) for a missing key. Quota limits are not modelled: \<^verbatim>\<open>setItem\<close>
  always succeeds.
\<close>

type_synonym storage = "string \<rightharpoonup> string"

text \<open>\<^verbatim>\<open>const STORAGE_KEY = "filmoteca::movies"\<close>\<close>

definition STORAGE_KEY :: string where
  "STORAGE_KEY = ''filmoteca::movies''"

text \<open>
  \<^verbatim>\<open>const loadMovies = () => {
    const data = localStorage.getItem(STORAGE_KEY)
    return data ? JSON.parse(data) : []
  }\<close>
  The test \<^verbatim>\<open>data ?\<close> fails for \<^verbatim>\<open>null\<close> (no entry) and for the empty string. There is no
  \<^verbatim>\<open>try\<close> around \<^verbatim>\<open>JSON.parse\<close>: what it throws, the caller of \<^verbatim>\<open>loadMovies\<close> gets.
\<close>

definition loadMovies :: "storage \<Rightarrow> js_error + jsval" where
  "loadMovies st =
     (case st STORAGE_KEY of
        None \<Rightarrow> Inr (JArr [])
      | Some data \<Rightarrow> if data \<noteq> [] then JSON_parse data else Inr (JArr []))"

text \<open>
  \<^verbatim>\<open>const saveMovies = movies => localStorage.setItem(STORAGE_KEY, JSON.stringify(movies))\<close>
  \<^verbatim>\<open>setItem\<close> converts its argument to a string, so an \<^verbatim>\<open>undefined\<close> is stored as the
  nine letters.
\<close>

definition saveMovies :: "jsval \<Rightarrow> storage \<Rightarrow> storage" where
  "saveMovies movies st =
     st(STORAGE_KEY \<mapsto> (case JSON_stringify movies of None \<Rightarrow> ''undefined'' | Some text \<Rightarrow> text))"

text \<open>
  \<^verbatim>\<open>const clearMovies = () => { localStorage.removeItem(STORAGE_KEY); console.log(...) }\<close>
\<close>

definition clearMovies :: "storage \<Rightarrow> storage" where
  "clearMovies st = st(STORAGE_KEY := None)"

text \<open>The in-memory collection, an array of movie objects, as the value that is saved.\<close>

definition moviesValue :: "jsobj list \<Rightarrow> jsval" where
  "moviesValue movies = JArr (map JObj movies)"

section \<open>Catalog client\<close>

text \<open>
  The outcome of one \<^verbatim>\<open>fetch\<close>: the promise rejects (no response), or a response arrives
  with its \<^verbatim>\<open>ok\<close> flag and the outcome of \<^verbatim>\<open>response.json()\<close>, which is \<open>None\<close> when the
  body is not JSON and the promise rejects.
\<close>

datatype http_reply = NetworkFailure | Reply bool "jsval option"

text \<open>
  The catalog as this client sees it: what the details request and the credits request
  for a movie id are answered with. A reply depends on the request only, not on the
  moment or the order in which requests are issued; interleaving is outside the model.
  \<open>Date_getFullYear\<close> stands for \<^verbatim>\<open>new Date(x).getFullYear()\<close>, which depends on the
  platform's date parser and time zone.
\<close>

record world =
  detailsReply :: "jsval \<Rightarrow> http_reply"
  creditsReply :: "jsval \<Rightarrow> http_reply"
  Date_getFullYear :: "jsval \<Rightarrow> jsval"

text \<open>The two sentinels, with their accented letters as code units:
  \<^verbatim>\<open>"Diretor n\u00E3o informado"\<close> and \<^verbatim>\<open>"Sinopse n\u00E3o dispon\u00EDvel"\<close>\<close>

definition noDirector :: string where
  "noDirector = ''Diretor n'' @ [CHR 0xE3] @ ''o informado''"

definition noOverview :: string where
  "noOverview = ''Sinopse n'' @ [CHR 0xE3] @ ''o dispon'' @ [CHR 0xED] @ ''vel''"

definition imageBaseUrl :: string where
  "imageBaseUrl = ''https://image.tmdb.org/t/p/w500''"

subsection \<open>api.js\<close>

text \<open>
  \<^verbatim>\<open>getMovieDetailsFromTMDB\<close>: the request, \<^verbatim>\<open>if (!response.ok) throw\<close>,
  \<^verbatim>\<open>return await response.json()\<close>, all inside \<^verbatim>\<open>try\<close>; the \<^verbatim>\<open>catch\<close> returns \<^verbatim>\<open>null\<close>.
\<close>

definition getMovieDetailsFromTMDB :: "world \<Rightarrow> jsval \<Rightarrow> jsval" where
  "getMovieDetailsFromTMDB w movieId =
     (case detailsReply w movieId of
        NetworkFailure \<Rightarrow> JNull
      | Reply ok body \<Rightarrow>
          (if \<not> ok then JNull else (case body of None \<Rightarrow> JNull | Some v \<Rightarrow> v)))"

text \<open>\<^verbatim>\<open>getMovieCreditsFromTMDB\<close>: the same for the credits request.\<close>

definition getMovieCreditsFromTMDB :: "world \<Rightarrow> jsval \<Rightarrow> jsval" where
  "getMovieCreditsFromTMDB w movieId =
     (case creditsReply w movieId of
        NetworkFailure \<Rightarrow> JNull
      | Reply ok body \<Rightarrow>
          (if \<not> ok then JNull else (case body of None \<Rightarrow> JNull | Some v \<Rightarrow> v)))"

text \<open>
  \<^verbatim>\<open>crew.find(person => person.job === "Director")\<close>: the first matching element, or
  \<^verbatim>\<open>undefined\<close>. Reading \<^verbatim>\<open>job\<close> of a \<^verbatim>\<open>null\<close> element throws.
\<close>

fun findDirector :: "jsval list \<Rightarrow> js_error + jsval" where
  "findDirector [] = Inr JUndefined"
| "findDirector (person # rest) =
     (if nullish person then Inl TypeError
      else if strictEq (field person ''job'') (JStr ''Director'') then Inr person
      else findDirector rest)"

text \<open>
  \<^verbatim>\<open>const extractDirectorFromCredits = (credits) => {
    if (!credits || !credits.crew) return "Diretor n\u00E3o informado"
    const director = credits.crew.find(person => person.job === "Director")
    return director ? director.name : "Diretor n\u00E3o informado"
  }\<close>
  A truthy \<^verbatim>\<open>crew\<close> that is not an array has no \<^verbatim>\<open>find\<close> to call.
\<close>

definition extractDirectorFromCredits :: "jsval \<Rightarrow> js_error + jsval" where
  "extractDirectorFromCredits credits =
     (if \<not> truthy credits \<or> \<not> truthy (field credits ''crew'') then Inr (JStr noDirector)
      else (case field credits ''crew'' of
              JArr crew \<Rightarrow>
                (case findDirector crew of
                   Inl e \<Rightarrow> Inl e
                 | Inr director \<Rightarrow>
                     Inr (if truthy director then field director ''name'' else JStr noDirector))
            | _ \<Rightarrow> Inl TypeError))"

text \<open>\<^verbatim>\<open>const createImageUrl = (path) => path ? `${TMDB_CONFIG.imageBaseUrl}${path}` : null\<close>\<close>

definition createImageUrl :: "jsval \<Rightarrow> jsval" where
  "createImageUrl path = (if truthy path then JStr (imageBaseUrl @ toStr path) else JNull)"

text \<open>
  \<^verbatim>\<open>details.genres ? details.genres.map(g => g.name).join(', ') : ''\<close>, given
  \<^verbatim>\<open>details.genres\<close>. A truthy value that is not an array has no \<^verbatim>\<open>map\<close>; reading
  \<^verbatim>\<open>name\<close> of a \<^verbatim>\<open>null\<close> element throws.
\<close>

definition genresText :: "jsval \<Rightarrow> js_error + jsval" where
  "genresText g =
     (if \<not> truthy g then Inr (JStr [])
      else (case g of
              JArr gs \<Rightarrow>
                (if list_ex nullish gs then Inl TypeError
                 else Inr (JStr (joinWith '', ''
                        (map (\<lambda>x. let n = field x ''name'' in if nullish n then [] else toStr n) gs))))
            | _ \<Rightarrow> Inl TypeError))"

text \<open>\<^verbatim>\<open>details.release_date ? new Date(details.release_date).getFullYear() : null\<close>\<close>

definition yearOf :: "world \<Rightarrow> jsval \<Rightarrow> jsval" where
  "yearOf w details =
     (if truthy (field details ''release_date'')
      then Date_getFullYear w (field details ''release_date'') else JNull)"

text \<open>
  \<^verbatim>\<open>fetchCompleteMovieData\<close> of api.js. Both helper calls are started, both are awaited
  (\<^verbatim>\<open>Promise.all\<close>); neither rejects, each gives its value or \<^verbatim>\<open>null\<close>.
  \<^verbatim>\<open>if (!details) return null\<close>, then the director and the object literal; anything thrown
  on the way is caught and gives \<^verbatim>\<open>null\<close>, here \<open>None\<close>.
\<close>

definition API_movieObject :: "world \<Rightarrow> jsval \<Rightarrow> jsval \<Rightarrow> jsval \<Rightarrow> jsobj" where
  "API_movieObject w details director genres =
     [(''id'', field details ''id''),
      (''title'', field details ''title''),
      (''originalTitle'', field details ''original_title''),
      (''director'', director),
      (''year'', yearOf w details),
      (''overview'', jsOr (field details ''overview'') (JStr noOverview)),
      (''posterPath'', field details ''poster_path''),
      (''backdropPath'', field details ''backdrop_path''),
      (''posterUrl'', createImageUrl (field details ''poster_path'')),
      (''backdropUrl'', createImageUrl (field details ''backdrop_path'')),
      (''genres'', genres),
      (''runtime'', field details ''runtime''),
      (''voteAverage'', field details ''vote_average''),
      (''popularity'', field details ''popularity''),
      (''tmdbData'', details)]"

definition API_fetchCompleteMovieData :: "world \<Rightarrow> jsval \<Rightarrow> jsobj option" where
  "API_fetchCompleteMovieData w movieId =
     (let details = getMovieDetailsFromTMDB w movieId;
          credits = getMovieCreditsFromTMDB w movieId
      in if \<not> truthy details then None
         else (case extractDirectorFromCredits credits of
                 Inl e \<Rightarrow> None
               | Inr director \<Rightarrow>
                   (case genresText (field details ''genres'') of
                      Inl e \<Rightarrow> None
                    | Inr genres \<Rightarrow> Some (API_movieObject w details director genres))))"

subsection \<open>filmoteca.js\<close>

text \<open>
  \<^verbatim>\<open>credits.crew
    ? credits.crew.find(person => person.job === "Director")?.name || "Diretor n\u00E3o informado"
    : "Diretor n\u00E3o informado"\<close>
  Reading \<^verbatim>\<open>crew\<close> of a \<^verbatim>\<open>null\<close> credits value throws.
\<close>

definition directorOf :: "jsval \<Rightarrow> js_error + jsval" where
  "directorOf credits =
     (if nullish credits then Inl TypeError
      else if \<not> truthy (field credits ''crew'') then Inr (JStr noDirector)
      else (case field credits ''crew'' of
              JArr crew \<Rightarrow>
                (case findDirector crew of
                   Inl e \<Rightarrow> Inl e
                 | Inr found \<Rightarrow>
                     Inr (jsOr (if nullish found then JUndefined else field found ''name'')
                               (JStr noDirector)))
            | _ \<Rightarrow> Inl TypeError))"

text \<open>
  \<^verbatim>\<open>fetchCompleteMovieData\<close> of filmoteca.js, one \<^verbatim>\<open>try\<close> block around everything:
  \<^verbatim>\<open>
    const response = await fetch(.../movie/${movieId}...)
    if (!response.ok) throw new Error(...)
    const details = await response.json()
    const creditsResponse = await fetch(.../movie/${movieId}/credits...)
    const credits = await creditsResponse.json()
    const director = ...
    return { id: details.id, ... }
  } catch (error) { return null }\<close>
  The credits request is awaited after the details have arrived, its \<^verbatim>\<open>ok\<close> flag is not
  looked at, and a rejection of either \<^verbatim>\<open>fetch\<close> or either \<^verbatim>\<open>json()\<close> lands in the one
  \<^verbatim>\<open>catch\<close>.
\<close>

definition Filmoteca_movieObject :: "world \<Rightarrow> jsval \<Rightarrow> jsval \<Rightarrow> jsval \<Rightarrow> jsobj" where
  "Filmoteca_movieObject w details director genres =
     [(''id'', field details ''id''),
      (''title'', field details ''title''),
      (''director'', director),
      (''year'', yearOf w details),
      (''overview'', jsOr (field details ''overview'') (JStr noOverview)),
      (''posterUrl'', createImageUrl (field details ''poster_path'')),
      (''genres'', genres),
      (''runtime'', field details ''runtime''),
      (''voteAverage'', field details ''vote_average'')]"

text \<open>The part after both bodies have been decoded: the director, then the object literal.\<close>

definition Filmoteca_assemble :: "world \<Rightarrow> jsval \<Rightarrow> jsval \<Rightarrow> jsobj option" where
  "Filmoteca_assemble w details credits =
     (case directorOf credits of
        Inl e \<Rightarrow> None
      | Inr director \<Rightarrow>
          (if nullish details then None
           else (case genresText (field details ''genres'') of
                   Inl e \<Rightarrow> None
                 | Inr genres \<Rightarrow> Some (Filmoteca_movieObject w details director genres))))"

definition Filmoteca_fetchCompleteMovieData :: "world \<Rightarrow> jsval \<Rightarrow> jsobj option" where
  "Filmoteca_fetchCompleteMovieData w movieId =
     (case detailsReply w movieId of
        NetworkFailure \<Rightarrow> None
      | Reply ok body \<Rightarrow>
          (if \<not> ok then None
           else (case body of
                   None \<Rightarrow> None
                 | Some details \<Rightarrow>
                     (case creditsReply w movieId of
                        NetworkFailure \<Rightarrow> None
                      | Reply creditsOk creditsBody \<Rightarrow>
                          (case creditsBody of
                             None \<Rightarrow> None
                           | Some credits \<Rightarrow> Filmoteca_assemble w details credits)))))"

text \<open>\<^verbatim>\<open>const DEFAULT_MOVIE_IDS = [129, 124, 122, 121, 120, 13, 155, 497, 680, 275]\<close>\<close>

definition DEFAULT_MOVIE_IDS :: "jsval list" where
  "DEFAULT_MOVIE_IDS =
     [JInt 129, JInt 124, JInt 122, JInt 121, JInt 120, JInt 13, JInt 155, JInt 497, JInt 680, JInt 275]"

text \<open>
  \<^verbatim>\<open>resetMovies\<close>: one \<^verbatim>\<open>fetchCompleteMovieData(id)\<close> per default id, all awaited with
  \<^verbatim>\<open>Promise.all\<close>, whose result array follows the order of the promises;
  \<^verbatim>\<open>moviesArray.filter(movie => movie !== null)\<close>; \<^verbatim>\<open>saveMovies(successfulMovies)\<close>;
  \<^verbatim>\<open>return successfulMovies\<close>. The \<^verbatim>\<open>.catch\<close> on each promise and the outer \<^verbatim>\<open>catch\<close> have
  nothing to catch, since \<^verbatim>\<open>fetchCompleteMovieData\<close> never rejects and storage accepts
  every write. The result is the returned list and the storage after the write.
\<close>

definition resetMovies :: "world \<Rightarrow> storage \<Rightarrow> jsobj list \<times> storage" where
  "resetMovies w st =
     (let moviesArray = map (Filmoteca_fetchCompleteMovieData w) DEFAULT_MOVIE_IDS;
          successfulMovies = map the (filter (\<lambda>movie. movie \<noteq> None) moviesArray)
      in (successfulMovies, saveMovies (moviesValue successfulMovies) st))"

text \<open>
  The catalog's schema for a list-valued field (\<open>genres\<close> of the details, \<open>crew\<close> of
  the credits): absent, or an array without \<^verbatim>\<open>null\<close> elements.
\<close>

definition tmdbList :: "jsval \<Rightarrow> bool" where
  "tmdbList v = (case v of JArr xs \<Rightarrow> list_all (\<lambda>x. \<not> nullish x) xs | _ \<Rightarrow> \<not> truthy v)"

section \<open>Adding a movie from the catalog\<close>

text \<open>
  What the add flow can change outside its return value: local storage, and the messages
  shown to the user with \<^verbatim>\<open>alert\<close>, oldest first.
\<close>

record browser =
  storage :: storage
  alerts :: "string list"

text \<open>\<^verbatim>\<open>'Este filme j\u00E1 est\u00E1 na sua cole\u00E7\u00E3o!'\<close>\<close>

definition msgAlreadyInCollection :: string where
  "msgAlreadyInCollection =
     ''Este filme j'' @ [CHR 0xE1] @ '' est'' @ [CHR 0xE1] @ '' na sua cole''
       @ [CHR 0xE7, CHR 0xE3] @ ''o!''"

definition msgNoData :: string where
  "msgNoData = ''Erro ao obter dados do filme.''"

text \<open>\<^verbatim>\<open>`Filme "${movieData.title}" adicionado com sucesso!`\<close>\<close>

definition msgAdded :: "jsobj \<Rightarrow> string" where
  "msgAdded movieData =
     ''Filme '' @ [CHR 0x22] @ toStr (get movieData ''title'') @ [CHR 0x22]
       @ '' adicionado com sucesso!''"

text \<open>
  \<^verbatim>\<open>addMovieFromTMDB\<close> of api.js:
  \<^verbatim>\<open>
    if (Filmoteca.movieExists(movies, movieId)) { alert(...); return movies; }
    const movieData = await fetchCompleteMovieData(movieId);
    if (!movieData) { alert(...); return movies; }
    const updatedMovies = Filmoteca.addMovie(movies, movieData);
    Filmoteca.saveMovies(updatedMovies);
    alert(...);
    return updatedMovies;\<close>
  Nothing in the \<^verbatim>\<open>try\<close> block throws in this model, so its \<^verbatim>\<open>catch\<close> is never entered.
\<close>

definition API_addMovieFromTMDB ::
    "world \<Rightarrow> jsval \<Rightarrow> jsobj list \<Rightarrow> browser \<Rightarrow> jsobj list \<times> browser" where
  "API_addMovieFromTMDB w movieId movies b =
     (if movieExists movies movieId
      then (movies, b\<lparr>alerts := alerts b @ [msgAlreadyInCollection]\<rparr>)
      else (case API_fetchCompleteMovieData w movieId of
              None \<Rightarrow> (movies, b\<lparr>alerts := alerts b @ [msgNoData]\<rparr>)
            | Some movieData \<Rightarrow>
                (let updatedMovies = addMovie movies movieData
                 in (updatedMovies,
                     b\<lparr>storage := saveMovies (moviesValue updatedMovies) (storage b),
                       alerts := alerts b @ [msgAdded movieData]\<rparr>))))"

text \<open>
  The page of ui.js: the module variable \<^verbatim>\<open>movies\<close>, the markup of \<^verbatim>\<open>#forms\<close> and the text of
  \<^verbatim>\<open>#output\<close>, on top of the browser state.
\<close>

record page = browser +
  movies :: "jsobj list"
  formsHTML :: string
  outputText :: string

text \<open>
  \<^verbatim>\<open>window.addMovieFromTMDB\<close> of ui.js, the handler behind a search result:
  \<^verbatim>\<open>
    if (Filmoteca.movieExists(movies, movieId)) { alert(...); return; }
    const movieData = await API.fetchCompleteMovieData(movieId);
    if (!movieData) { alert(...); return; }
    movies = Filmoteca.addMovie(movies, movieData);
    Filmoteca.saveMovies(movies);
    forms.innerHTML = '';
    output.textContent = `Filme "${movieData.title}" adicionado com sucesso!`;\<close>
\<close>

definition window_addMovieFromTMDB :: "world \<Rightarrow> jsval \<Rightarrow> page \<Rightarrow> page" where
  "window_addMovieFromTMDB w movieId pg =
     (if movieExists (movies pg) movieId
      then pg\<lparr>alerts := alerts pg @ [msgAlreadyInCollection]\<rparr>
      else (case API_fetchCompleteMovieData w movieId of
              None \<Rightarrow> pg\<lparr>alerts := alerts pg @ [msgNoData]\<rparr>
            | Some movieData \<Rightarrow>
                pg\<lparr>movies := addMovie (movies pg) movieData,
                   storage := saveMovies (moviesValue (addMovie (movies pg) movieData)) (storage pg),
                   formsHTML := [],
                   outputText := msgAdded movieData\<rparr>))"

section \<open>Rendering a movie (ui.js)\<close>

text \<open>
  The three kinds of \<^verbatim>\<open><span>\<close> that \<^verbatim>\<open>createStarsHTML\<close> emits, each with its
  \<^verbatim>\<open>data-value\<close>: \<^verbatim>\<open>class="star filled"\<close>; \<^verbatim>\<open>class="star"\<close> with a gradient filled up to a
  percentage; and a bare \<^verbatim>\<open>class="star"\<close>.
\<close>

datatype star = StarFilled int | StarPartial int int | StarEmpty int

text \<open>\<^verbatim>\<open>Math.floor\<close> on a decimal.\<close>

fun mathFloor :: "jsnum \<Rightarrow> int" where
  "mathFloor (Dec m k) = m div 10 ^ k"

text \<open>
  \<^verbatim>\<open>Math.round((rating - ratingFloor) * 100)\<close>, computed exactly; \<^verbatim>\<open>Math.round\<close> rounds a
  half upwards. JavaScript multiplies in binary floating point, which agrees with the
  exact product when \<open>rating\<close> is an integer and may differ in the last unit otherwise.
\<close>

fun percentageOf :: "jsnum \<Rightarrow> int" where
  "percentageOf (Dec m k) = (200 * (m mod 10 ^ k) + 10 ^ k) div (2 * 10 ^ k)"

text \<open>
  \<^verbatim>\<open>createStarsHTML(rating, current = 1, maxStars = 10)\<close>, the recursion over \<open>current\<close>.
  The rating is \<open>None\<close> when it is \<^verbatim>\<open>NaN\<close>: every comparison with it is false and
  every star comes out empty.
\<close>

function createStarsHTML :: "jsnum option \<Rightarrow> int \<Rightarrow> int \<Rightarrow> star list" where
  "createStarsHTML rating current maxStars =
     (if current > maxStars then []
      else (case rating of
              None \<Rightarrow> StarEmpty current
            | Some r \<Rightarrow>
                (if current \<le> mathFloor r then StarFilled current
                 else if current = mathFloor r + 1 then StarPartial current (percentageOf r)
                 else StarEmpty current))
           # createStarsHTML rating (current + 1) maxStars)"
  by pat_completeness auto
termination
  by (relation "measure (\<lambda>(rating, current, maxStars). nat (maxStars + 1 - current))") auto

declare createStarsHTML.simps [simp del]

text \<open>
  \<^verbatim>\<open>ToNumber\<close>, as \<^verbatim>\<open>Math.floor\<close> and the arithmetic in \<^verbatim>\<open>createStarsHTML\<close> apply it; \<open>None\<close>
  is \<^verbatim>\<open>NaN\<close>. The conversion of a string to a number follows the platform's numeric
  string grammar and is taken as the parameter \<open>StringToNumber\<close>.
\<close>

definition toNumber :: "(string \<Rightarrow> jsnum option) \<Rightarrow> jsval \<Rightarrow> jsnum option" where
  "toNumber StringToNumber v =
     (case v of
        JUndefined \<Rightarrow> None
      | JNull \<Rightarrow> Some (Dec 0 0)
      | JBool b \<Rightarrow> Some (Dec (if b then 1 else 0) 0)
      | JNum n \<Rightarrow> Some n
      | JStr s \<Rightarrow> StringToNumber s
      | _ \<Rightarrow> StringToNumber (toStr v))"

text \<open>\<^verbatim>\<open>const maxStars = 10\<close>\<close>

definition maxStars :: int where
  "maxStars = 10"

text \<open>
  Inside \<^verbatim>\<open>createMovieHTML\<close>: \<^verbatim>\<open>const rating = movie.rating || movie.voteAverage || 0\<close>
\<close>

definition displayRating :: "jsobj \<Rightarrow> jsval" where
  "displayRating movie = jsOr (jsOr (get movie ''rating'') (get movie ''voteAverage'')) (JInt 0)"

text \<open>
  \<^verbatim>\<open>const scoreText = movie.rating
    ? `${movie.rating}/${maxStars}`
    : (movie.voteAverage ? movie.voteAverage.toFixed(1) : '')\<close>
  Only a number has \<^verbatim>\<open>toFixed\<close>; on any other truthy value the call throws.
  \<^verbatim>\<open>Number.prototype.toFixed\<close> works on the binary value of the number and is taken as
  the parameter \<open>toFixed\<close>, applied to the number and the digit count.
\<close>

definition scoreText :: "(jsnum \<Rightarrow> nat \<Rightarrow> string) \<Rightarrow> jsobj \<Rightarrow> js_error + string" where
  "scoreText toFixed movie =
     (if truthy (get movie ''rating'')
      then Inr (toStr (get movie ''rating'') @ ''/'' @ toStr (JInt maxStars))
      else if truthy (get movie ''voteAverage'')
      then (case get movie ''voteAverage'' of
              JNum n \<Rightarrow> Inr (toFixed n 1)
            | _ \<Rightarrow> Inl TypeError)
      else Inr [])"

text \<open>The stars placed in the template: \<^verbatim>\<open>${createStarsHTML(rating, 1, maxStars)}\<close>\<close>

definition movieStars :: "(string \<Rightarrow> jsnum option) \<Rightarrow> jsobj \<Rightarrow> star list" where
  "movieStars StringToNumber movie =
     createStarsHTML (toNumber StringToNumber (displayRating movie)) 1 maxStars"

text \<open>
  The markup around the score: \<^verbatim>\<open>${scoreText ? `<span>Nota: <strong>${scoreText}</strong></span>` : ''}\<close>,
  so an empty score text shows no score at all.
\<close>

definition scoreShown :: "(jsnum \<Rightarrow> nat \<Rightarrow> string) \<Rightarrow> jsobj \<Rightarrow> js_error + string option" where
  "scoreShown toFixed movie =
     (case scoreText toFixed movie of
        Inl e \<Rightarrow> Inl e
      | Inr text \<Rightarrow> Inr (if text \<noteq> [] then Some text else None))"

text \<open>
  \<^verbatim>\<open>toFixed\<close> on the decimal itself: the nearest multiple of \<open>10 ^ - digits\<close>, the larger
  one on a tie, printed with exactly \<open>digits\<close> digits after the point. It is what
  \<^verbatim>\<open>Number.prototype.toFixed\<close> gives whenever the decimal is not a tie, and on a tie
  that a double represents exactly (an integer is never a tie).
\<close>

fun toFixedDec :: "jsnum \<Rightarrow> nat \<Rightarrow> string" where
  "toFixedDec (Dec m k) digits =
     (let n = (2 * nat \<bar>m\<bar> * 10 ^ digits + 10 ^ k) div (2 * 10 ^ k)
      in (if m < 0 then ''-'' else [])
         @ showNat (n div 10 ^ digits)
         @ (if digits = 0 then [] else ''.'' @ fracDigits digits (n mod 10 ^ digits)))"

section \<open>JSON text: printing and then parsing gives the value back\<close>

subsection \<open>Digits\<close>

lemma lt10_cases:
  "d < (10::nat) \<Longrightarrow> d = 0 \<or> d = 1 \<or> d = 2 \<or> d = 3 \<or> d = 4 \<or> d = 5 \<or> d = 6 \<or> d = 7 \<or> d = 8 \<or> d = 9"
  by arith

lemma digitChar_isDigit: "d < 10 \<Longrightarrow> isDigit (digitChar d)"
  by (drule lt10_cases) (auto simp: digitChar_def isDigit_def)

lemma digitChar_val: "d < 10 \<Longrightarrow> digitVal (digitChar d) = d"
  by (drule lt10_cases) (auto simp: digitChar_def digitVal_def)

lemma digitChar_zero: "d < 10 \<Longrightarrow> (digitChar d = CHR ''0'') = (d = 0)"
  by (drule lt10_cases) (auto simp: digitChar_def)

lemma showNat_nonempty: "showNat n \<noteq> []"
  by (subst showNat.simps) simp

lemma showNat_digits: "list_all isDigit (showNat n)"
proof (induction n rule: showNat.induct)
  case (1 n)
  show ?case
  proof (cases "n < 10")
    case True
    then show ?thesis by (subst showNat.simps) (simp add: digitChar_isDigit)
  next
    case False
    with 1 show ?thesis by (subst showNat.simps) (simp add: digitChar_isDigit)
  qed
qed

lemma foldl_digits_snoc:
  "foldl (\<lambda>a c. 10 * a + digitVal c) a (ds @ [c]) = 10 * foldl (\<lambda>a c. 10 * a + digitVal c) a ds + digitVal c"
  by simp

lemma digitsVal_showNat: "digitsVal (showNat n) = n"
proof (induction n rule: showNat.induct)
  case (1 n)
  show ?case
  proof (cases "n < 10")
    case True
    then show ?thesis by (subst showNat.simps) (simp add: digitsVal_def digitChar_val)
  next
    case False
    with 1 have "digitsVal (showNat (n div 10)) = n div 10" by simp
    with False show ?thesis
      by (subst showNat.simps) (simp add: digitsVal_def digitChar_val)
  qed
qed

lemma showNat_hd: "n \<noteq> 0 \<Longrightarrow> hd (showNat n) \<noteq> CHR ''0''"
proof (induction n rule: showNat.induct)
  case (1 n)
  show ?case
  proof (cases "n < 10")
    case True
    with "1.prems" show ?thesis by (subst showNat.simps) (simp add: digitChar_zero)
  next
    case False
    then have "n div 10 \<noteq> 0" by simp
    with 1 False have "hd (showNat (n div 10)) \<noteq> CHR ''0''" by simp
    with False show ?thesis
      by (subst showNat.simps) (simp add: showNat_nonempty)
  qed
qed

lemma showNat_zero: "showNat 0 = ''0''"
  by (simp add: showNat.simps digitChar_def)

lemma showNat_no_leading_zero: "\<not> (1 < length (showNat n) \<and> hd (showNat n) = CHR ''0'')"
  by (cases "n = 0") (simp_all add: showNat_zero showNat_hd)

lemma fracDigits_digits: "list_all isDigit (fracDigits k f)"
  by (induction k arbitrary: f) (simp_all add: digitChar_isDigit)

lemma fracDigits_length: "length (fracDigits k f) = k"
  by (induction k arbitrary: f) simp_all

lemma foldl_fracDigits:
  "foldl (\<lambda>a c. 10 * a + digitVal c) a (fracDigits k f) = a * 10 ^ k + f mod 10 ^ k"
proof (induction k arbitrary: f)
  case 0
  then show ?case by simp
next
  case (Suc k)
  have "f mod (10 * 10 ^ k) = 10 * ((f div 10) mod 10 ^ k) + f mod 10"
    by (metis mod_mult2_eq)
  with Suc show ?case
    by (simp add: digitChar_val algebra_simps)
qed

lemma digitsVal_append:
  "digitsVal (ds @ fracDigits k f) = digitsVal ds * 10 ^ k + f mod 10 ^ k"
  by (simp add: digitsVal_def foldl_fracDigits)

lemma takeWhile_digits:
  "list_all isDigit ds \<Longrightarrow> (rest = [] \<or> \<not> isDigit (hd rest)) \<Longrightarrow>
   takeWhile isDigit (ds @ rest) = ds \<and> dropWhile isDigit (ds @ rest) = rest"
  by (induction ds) (cases rest; auto)+

subsection \<open>Numbers\<close>

lemma delimited_not_digit: "delimited rest \<Longrightarrow> rest = [] \<or> \<not> isDigit (hd rest)"
  by (auto simp: delimited_def isDigit_def)

lemma normDec_canonical: "k = 0 \<or> m mod 10 \<noteq> 0 \<Longrightarrow> normDec m k = Dec m k"
  by (cases k) auto

lemma parseExponent_delimited:
  "delimited rest \<Longrightarrow> parseExponent neg ds k rest = Some (mkNum neg ds k 0, rest)"
  by (cases rest) (auto simp: parseExponent_def delimited_def)

lemma mkNum_canonical:
  assumes "k = 0 \<or> m mod 10 \<noteq> 0" and "digitsVal ds = nat \<bar>m\<bar>" and "neg = (m < 0)"
  shows "mkNum neg ds k 0 = Dec m k"
proof -
  have m: "(if neg then - int (digitsVal ds) else int (digitsVal ds)) = m"
    using assms(2,3) by auto
  show ?thesis
  proof (cases "k = 0")
    case True
    with m show ?thesis by (simp add: mkNum_def)
  next
    case False
    then have "\<not> int k \<le> 0" and "nat (int k - 0) = k"
      by simp_all
    with m assms(1) show ?thesis
      by (simp add: mkNum_def normDec_canonical)
  qed
qed

lemma delimited_not_dot: "delimited rest \<Longrightarrow> rest = [] \<or> hd rest \<noteq> CHR ''.''"
  by (auto simp: delimited_def)

lemma parseNumber_showNum:
  assumes canon: "k = 0 \<or> m mod 10 \<noteq> 0" and delim: "delimited rest"
  shows "parseNumber (showNum (Dec m k) @ rest) = Some (Dec m k, rest)"
proof -
  let ?ip = "showNat (nat \<bar>m\<bar> div 10 ^ k)"
  let ?fp = "fracDigits k (nat \<bar>m\<bar> mod 10 ^ k)"
  let ?tail = "(if k = 0 then [] else ''.'' @ ?fp) @ rest"
  let ?S = "showNum (Dec m k) @ rest"
  have body: "?S = (if m < 0 then ''-'' else []) @ ?ip @ ?tail"
    by simp
  obtain d ds where ipcons: "?ip = d # ds" and d: "isDigit d"
    using showNat_digits [of "nat \<bar>m\<bar> div 10 ^ k"] showNat_nonempty [of "nat \<bar>m\<bar> div 10 ^ k"]
    by (cases ?ip) auto
  from d have dnodash: "d \<noteq> CHR ''-''"
    by (auto simp: isDigit_def)
  have neg: "(case ?S of [] \<Rightarrow> False | c # r \<Rightarrow> c = CHR ''-'') = (m < 0)"
    unfolding body using ipcons dnodash by simp
  have s1: "(if m < 0 then tl ?S else ?S) = ?ip @ ?tail"
    unfolding body by simp
  have tailfirst: "?tail = [] \<or> \<not> isDigit (hd ?tail)"
    using delimited_not_digit [OF delim] by (auto simp: isDigit_def)
  have ip: "takeWhile isDigit (?ip @ ?tail) = ?ip" "dropWhile isDigit (?ip @ ?tail) = ?tail"
    using takeWhile_digits [OF showNat_digits tailfirst] by blast+
  have fp: "takeWhile isDigit (?fp @ rest) = ?fp" "dropWhile isDigit (?fp @ rest) = rest"
    using takeWhile_digits [OF fracDigits_digits delimited_not_digit [OF delim]] by blast+
  have val0: "digitsVal ?ip = nat \<bar>m\<bar> div 10 ^ k"
    by (rule digitsVal_showNat)
  have val: "digitsVal (?ip @ ?fp) = nat \<bar>m\<bar>"
    by (simp add: digitsVal_append digitsVal_showNat div_mult_mod_eq)
  have ok: "\<not> (?ip = [] \<or> (1 < length ?ip \<and> hd ?ip = CHR ''0''))"
    using showNat_nonempty showNat_no_leading_zero by blast
  have start: "parseNumber ?S =
      (case ?tail of
         [] \<Rightarrow> parseExponent (m < 0) ?ip 0 ?tail
       | c # r \<Rightarrow>
           (if c = CHR ''.''
            then (let fp = takeWhile isDigit r
                  in if fp = [] then None
                     else parseExponent (m < 0) (?ip @ fp) (length fp) (dropWhile isDigit r))
            else parseExponent (m < 0) ?ip 0 ?tail))"
    unfolding parseNumber_def Let_def neg s1 ip using ok by (simp only: if_False)
  show ?thesis
  proof (cases "k = 0")
    case True
    with val0 have "digitsVal ?ip = nat \<bar>m\<bar>" by simp
    then have num: "mkNum (m < 0) ?ip 0 0 = Dec m 0"
      using mkNum_canonical [of 0 m ?ip "m < 0"] by simp
    from True have tl: "?tail = rest" by simp
    have "parseNumber ?S = parseExponent (m < 0) ?ip 0 rest"
      unfolding start tl using delimited_not_dot [OF delim] by (cases rest) auto
    with True num show ?thesis
      by (simp add: parseExponent_delimited [OF delim])
  next
    case False
    then have tl: "?tail = CHR ''.'' # ?fp @ rest" by simp
    from False have "?fp \<noteq> []"
      using fracDigits_length [of k "nat \<bar>m\<bar> mod 10 ^ k"] by auto
    then have "parseNumber ?S = parseExponent (m < 0) (?ip @ ?fp) k rest"
      unfolding start tl by (simp add: fp fracDigits_length)
    moreover have "mkNum (m < 0) (?ip @ ?fp) k 0 = Dec m k"
      using mkNum_canonical [OF canon val] by simp
    ultimately show ?thesis
      by (simp add: parseExponent_delimited [OF delim])
  qed
qed

subsection \<open>Strings\<close>

lemma lt16_cases:
  "d < (16::nat) \<Longrightarrow> d = 0 \<or> d = 1 \<or> d = 2 \<or> d = 3 \<or> d = 4 \<or> d = 5 \<or> d = 6 \<or> d = 7
     \<or> d = 8 \<or> d = 9 \<or> d = 10 \<or> d = 11 \<or> d = 12 \<or> d = 13 \<or> d = 14 \<or> d = 15"
  by arith

lemma hexVal_hexChar: "d < 16 \<Longrightarrow> hexVal (hexChar d) = Some d"
  by (drule lt16_cases) (auto simp: hexVal_def hexChar_def)

lemma hexVal_zero: "hexVal (CHR ''0'') = Some 0"
  by (simp add: hexVal_def)

lemma hex4_control:
  assumes "(of_char c :: nat) < 32"
  shows "hex4 (CHR ''0'') (CHR ''0'') (hexChar (of_char c div 16)) (hexChar (of_char c mod 16))
           = Some (of_char c)"
proof -
  from assms have "(of_char c :: nat) div 16 < 16"
    by simp
  then show ?thesis
    by (simp add: hex4_def hexVal_zero hexVal_hexChar)
qed

lemma parseChars_control:
  assumes "(of_char c :: nat) < 32"
  shows "parseChars ([CHR 0x5C, CHR ''u'', CHR ''0'', CHR ''0'',
            hexChar (of_char c div 16), hexChar (of_char c mod 16)] @ t)
         = (case parseChars t of Inl err \<Rightarrow> Inl err | Inr (str, rest) \<Rightarrow> Inr (c # str, rest))"
  using assms by (simp add: hex4_control split: sum.splits)


lemma escapeChar_plain:
  assumes "c \<noteq> CHR 0x22" and "c \<noteq> CHR 0x5C" and "\<not> (of_char c :: nat) < 32"
  shows "escapeChar c = [c]"
proof -
  from assms(3) have "c \<noteq> CHR 0x08" "c \<noteq> CHR 0x0C" "c \<noteq> CHR 0x0A" "c \<noteq> CHR 0x0D" "c \<noteq> CHR 0x09"
    by auto
  with assms show ?thesis
    by (simp add: escapeChar_def)
qed

lemma parseChars_plain:
  assumes "c \<noteq> CHR 0x22" and "c \<noteq> CHR 0x5C" and "\<not> (of_char c :: nat) < 32"
  shows "parseChars (c # t)
     = (case parseChars t of Inl err \<Rightarrow> Inl err | Inr (str, rest) \<Rightarrow> Inr (c # str, rest))"
  using assms by simp

lemma escapeChar_control:
  assumes "(of_char c :: nat) < 32" and "c \<noteq> CHR 0x08" and "c \<noteq> CHR 0x0C" and "c \<noteq> CHR 0x0A"
      and "c \<noteq> CHR 0x0D" and "c \<noteq> CHR 0x09"
  shows "escapeChar c = [CHR 0x5C, CHR ''u'', CHR ''0'', CHR ''0'',
            hexChar (of_char c div 16), hexChar (of_char c mod 16)]"
proof -
  from assms(1) have "c \<noteq> CHR 0x22" "c \<noteq> CHR 0x5C"
    by auto
  with assms show ?thesis
    by (simp add: escapeChar_def)
qed

lemma parseChars_escapeChar:
  "parseChars (escapeChar c @ t)
     = (case parseChars t of Inl err \<Rightarrow> Inl err | Inr (str, rest) \<Rightarrow> Inr (c # str, rest))"
proof -
  consider "c = CHR 0x22" | "c = CHR 0x5C" | "c = CHR 0x08" | "c = CHR 0x0C" | "c = CHR 0x0A"
    | "c = CHR 0x0D" | "c = CHR 0x09"
    | "(of_char c :: nat) < 32" "c \<noteq> CHR 0x08" "c \<noteq> CHR 0x0C" "c \<noteq> CHR 0x0A"
      "c \<noteq> CHR 0x0D" "c \<noteq> CHR 0x09"
    | "c \<noteq> CHR 0x22" "c \<noteq> CHR 0x5C" "\<not> (of_char c :: nat) < 32"
    by blast
  then show ?thesis
  proof cases
    case 1
    then show ?thesis by (simp add: escapeChar_def simpleEscape_def split: sum.splits)
  next
    case 2
    then show ?thesis by (simp add: escapeChar_def simpleEscape_def split: sum.splits)
  next
    case 3
    then show ?thesis by (simp add: escapeChar_def simpleEscape_def split: sum.splits)
  next
    case 4
    then show ?thesis by (simp add: escapeChar_def simpleEscape_def split: sum.splits)
  next
    case 5
    then show ?thesis by (simp add: escapeChar_def simpleEscape_def split: sum.splits)
  next
    case 6
    then show ?thesis by (simp add: escapeChar_def simpleEscape_def split: sum.splits)
  next
    case 7
    then show ?thesis by (simp add: escapeChar_def simpleEscape_def split: sum.splits)
  next
    case 8
    then have e: "escapeChar c = [CHR 0x5C, CHR ''u'', CHR ''0'', CHR ''0'',
            hexChar (of_char c div 16), hexChar (of_char c mod 16)]"
      by (rule escapeChar_control)
    from 8(1) show ?thesis
      unfolding e by (rule parseChars_control)
  next
    case 9
    then have e: "escapeChar c = [c]"
      by (rule escapeChar_plain)
    from 9 show ?thesis
      unfolding e append_Cons append_Nil by (rule parseChars_plain)
  qed
qed

lemma parseChars_quoted:
  "parseChars (concat (map escapeChar s) @ CHR 0x22 # rest) = Inr (s, rest)"
proof (induction s)
  case Nil
  show ?case by simp
next
  case (Cons c s)
  have "parseChars (concat (map escapeChar (c # s)) @ CHR 0x22 # rest)
          = parseChars (escapeChar c @ (concat (map escapeChar s) @ CHR 0x22 # rest))"
    by simp
  also have "\<dots> = Inr (c # s, rest)"
    unfolding parseChars_escapeChar Cons.IH by simp
  finally show ?case .
qed

subsection \<open>Values\<close>

lemma update_fresh: "k \<notin> fst ` set al \<Longrightarrow> AList.update k v al = al @ [(k, v)]"
  by (induction al) auto

lemma objectOf_aux:
  "distinct (map fst (acc @ ps)) \<Longrightarrow>
   foldl (\<lambda>acc (k, v). AList.update k v acc) acc ps = acc @ ps"
proof (induction ps arbitrary: acc)
  case Nil
  show ?case by simp
next
  case (Cons p ps)
  obtain k v where p: "p = (k, v)" by (cases p)
  from Cons.prems p have fresh: "k \<notin> fst ` set acc"
    by auto
  from Cons.prems p have "distinct (map fst ((acc @ [(k, v)]) @ ps))"
    by auto
  then have "foldl (\<lambda>acc (k, v). AList.update k v acc) (acc @ [(k, v)]) ps = (acc @ [(k, v)]) @ ps"
    by (rule Cons.IH)
  with fresh p show ?case
    by (simp add: update_fresh)
qed

lemma objectOf_distinct: "distinct (map fst ps) \<Longrightarrow> objectOf ps = ps"
  using objectOf_aux [of "[]" ps] by (simp add: objectOf_def)

lemma showNum_start: "\<exists>c cs. showNum n @ r = c # cs \<and> (c = CHR ''-'' \<or> isDigit c)"
proof (cases n)
  case (Dec m k)
  obtain d ds where "showNat (nat \<bar>m\<bar> div 10 ^ k) = d # ds" and "isDigit d"
    using showNat_digits [of "nat \<bar>m\<bar> div 10 ^ k"] showNat_nonempty [of "nat \<bar>m\<bar> div 10 ^ k"]
    by (cases "showNat (nat \<bar>m\<bar> div 10 ^ k)") auto
  with Dec show ?thesis by auto
qed

lemma serialize_start: "\<exists>c cs. serialize v @ r = c # cs \<and> valueStart c"
proof (cases v)
  case (JNum n)
  then show ?thesis
    using showNum_start [of n r] by (auto simp: valueStart_def)
qed (auto simp: valueStart_def quoteJSON_def)

lemma valueStart_not_ws: "valueStart c \<Longrightarrow> \<not> isWs c"
  by (auto simp: valueStart_def isWs_def isDigit_def)

lemma skipWs_serialize: "skipWs (serialize v @ r) = serialize v @ r"
proof -
  obtain c cs where "serialize v @ r = c # cs" and "valueStart c"
    using serialize_start by blast
  then show ?thesis
    by (simp add: skipWs_def valueStart_not_ws)
qed

lemma skipWs_nows: "\<not> isWs c \<Longrightarrow> skipWs (c # r) = c # r"
  by (simp add: skipWs_def)

lemma serialize_nonempty: "serialize v \<noteq> []"
  using serialize_start [of v "[]"] by auto

lemma delimited_simps:
  "delimited []" "delimited (CHR '','' # r)" "delimited (CHR '']'' # r)" "delimited (CHR ''}'' # r)"
  by (simp_all add: delimited_def)

lemma parseValue_number:
  assumes "k = 0 \<or> m mod 10 \<noteq> 0" and "delimited rest"
  shows "parseValue (Suc n) (showNum (Dec m k) @ rest) = Inr (JNum (Dec m k), rest)"
proof -
  obtain c cs where s: "showNum (Dec m k) @ rest = c # cs" and c: "c = CHR ''-'' \<or> isDigit c"
    using showNum_start by blast
  from c have "c \<noteq> CHR ''{''" "c \<noteq> CHR ''[''" "c \<noteq> CHR 0x22" "c \<noteq> CHR ''n''" "c \<noteq> CHR ''t''"
      "c \<noteq> CHR ''f''"
    by (auto simp: isDigit_def)
  then have "parseValue (Suc n) (c # cs)
      = (case parseNumber (c # cs) of None \<Rightarrow> Inl SyntaxError
         | Some (num, rest) \<Rightarrow> Inr (JNum num, rest))"
    by simp
  with s parseNumber_showNum [OF assms] show ?thesis
    by simp
qed

lemma parseValue_string:
  "parseValue (Suc n) (quoteJSON s @ rest) = Inr (JStr s, rest)"
  by (simp add: quoteJSON_def parseChars_quoted)

lemma parseElements_serialize:
  assumes "\<And>x rest n. x \<in> set xs \<Longrightarrow> delimited rest \<Longrightarrow> length (serialize x) \<le> n
             \<Longrightarrow> parseValue n (serialize x @ rest) = Inr (x, rest)"
      and "xs \<noteq> []"
      and "length (joinWith '','' (map serialize xs)) < n"
  shows "parseElements n (joinWith '','' (map serialize xs) @ CHR '']'' # rest) = Inr (xs, rest)"
  using assms
proof (induction xs arbitrary: n)
  case Nil
  then show ?case by simp
next
  case (Cons x xs)
  from Cons.prems(3) obtain n' where n: "n = Suc n'"
    by (cases n) auto
  show ?case
  proof (cases xs)
    case Nil
    with Cons.prems(3) n have "length (serialize x) \<le> n'"
      by simp
    then have "parseValue n' (serialize x @ CHR '']'' # rest) = Inr (x, CHR '']'' # rest)"
      using Cons.prems(1) [of x] by (simp add: delimited_simps)
    with Nil n show ?thesis
      by (simp add: skipWs_serialize skipWs_nows isWs_def)
  next
    case (Cons y ys)
    let ?E = "joinWith '','' (map serialize (y # ys))"
    from Cons Cons.prems(3) n have len: "length (serialize x) \<le> n'" "length ?E < n'"
      by simp_all
    have "parseValue n' (serialize x @ CHR '','' # ?E @ CHR '']'' # rest)
            = Inr (x, CHR '','' # ?E @ CHR '']'' # rest)"
      using Cons.prems(1) [of x] len by (simp add: delimited_simps)
    moreover have "parseElements n' (?E @ CHR '']'' # rest) = Inr (y # ys, rest)"
      using Cons.IH [of n'] Cons.prems(1) len Cons by simp
    ultimately show ?thesis
      using Cons n by (simp add: skipWs_serialize skipWs_nows isWs_def)
  qed
qed

lemma parseMembers_unfold:
  "parseMembers (Suc n) (memberText (k, v) @ t) =
     (case parseValue n (serialize v @ t) of
        Inl err \<Rightarrow> Inl err
      | Inr (v', r3) \<Rightarrow>
          (case skipWs r3 of
             [] \<Rightarrow> Inl SyntaxError
           | c # r4 \<Rightarrow>
               (if c = CHR '','' then
                  (case parseMembers n r4 of
                     Inl err \<Rightarrow> Inl err
                   | Inr (ms, rest) \<Rightarrow> Inr ((k, v') # ms, rest))
                else if c = CHR ''}'' then Inr ([(k, v')], r4)
                else Inl SyntaxError)))"
  by (simp add: memberText_def quoteJSON_def parseChars_quoted skipWs_serialize skipWs_nows isWs_def)

lemma memberText_length: "length (serialize (snd p)) < length (memberText p)"
  by (simp add: memberText_def)

lemma parseMembers_serialize:
  assumes "\<And>p rest n. p \<in> set ps \<Longrightarrow> delimited rest \<Longrightarrow> length (serialize (snd p)) \<le> n
             \<Longrightarrow> parseValue n (serialize (snd p) @ rest) = Inr (snd p, rest)"
      and "ps \<noteq> []"
      and "length (joinWith '','' (map memberText ps)) < n"
  shows "parseMembers n (joinWith '','' (map memberText ps) @ CHR ''}'' # rest) = Inr (ps, rest)"
  using assms
proof (induction ps arbitrary: n)
  case Nil
  then show ?case by simp
next
  case (Cons p ps)
  obtain k v where p: "p = (k, v)" by (cases p)
  from Cons.prems(3) obtain n' where n: "n = Suc n'"
    by (cases n) auto
  show ?case
  proof (cases ps)
    case Nil
    let ?T = "CHR ''}'' # rest"
    have shape: "joinWith '','' (map memberText (p # ps)) @ CHR ''}'' # rest = memberText (k, v) @ ?T"
      using Nil p by simp
    from Nil Cons.prems(3) n memberText_length [of p] p have "length (serialize v) \<le> n'"
      by simp
    then have pv: "parseValue n' (serialize v @ ?T) = Inr (v, ?T)"
      using Cons.prems(1) [of p] p by (simp add: delimited_simps)
    show ?thesis
      unfolding n shape parseMembers_unfold pv using Nil p by (simp add: skipWs_nows isWs_def)
  next
    case (Cons q qs)
    let ?M = "joinWith '','' (map memberText (q # qs))"
    let ?T = "CHR '','' # ?M @ CHR ''}'' # rest"
    have shape: "joinWith '','' (map memberText (p # ps)) @ CHR ''}'' # rest = memberText (k, v) @ ?T"
      using Cons p by simp
    from Cons Cons.prems(3) n have "length (memberText p) + 1 + length ?M < Suc n'"
      by simp
    with memberText_length [of p] p have len: "length (serialize v) \<le> n'" "length ?M < n'"
      by simp_all
    have pv: "parseValue n' (serialize v @ ?T) = Inr (v, ?T)"
      using Cons.prems(1) [of p] p len by (simp add: delimited_simps)
    have pm: "parseMembers n' (?M @ CHR ''}'' # rest) = Inr (q # qs, rest)"
      using Cons.IH [of n'] Cons.prems(1) len Cons by simp
    show ?thesis
      unfolding n shape parseMembers_unfold pv using Cons p pm by (simp add: skipWs_nows isWs_def)
  qed
qed


lemma jsonable_members:
  "list_all (\<lambda>p. \<not> arrayIndexKey (fst p) \<and> jsonable (snd p)) ps \<Longrightarrow>
   filter (\<lambda>(k, v). v \<noteq> JUndefined) ps = ps"
  by (induction ps) auto

lemma serialize_object:
  "list_all (\<lambda>p. \<not> arrayIndexKey (fst p) \<and> jsonable (snd p)) ps \<Longrightarrow>
   serialize (JObj ps) = ''{'' @ joinWith '','' (map memberText ps) @ ''}''"
proof -
  have "(\<lambda>(k, v). quoteJSON k @ '':'' @ serialize v) = memberText"
    by (auto simp: memberText_def fun_eq_iff)
  then show "list_all (\<lambda>p. \<not> arrayIndexKey (fst p) \<and> jsonable (snd p)) ps \<Longrightarrow> ?thesis"
    by (simp add: jsonable_members)
qed

lemma parseValue_serialize:
  "jsonable v \<Longrightarrow> delimited rest \<Longrightarrow> length (serialize v) \<le> n \<Longrightarrow>
   parseValue n (serialize v @ rest) = Inr (v, rest)"
proof (induction v arbitrary: rest n)
  case JUndefined
  then show ?case by simp
next
  case JNull
  then obtain n' where "n = Suc n'" by (cases n) auto
  then show ?case by simp
next
  case (JBool b)
  then obtain n' where "n = Suc n'" by (cases n; cases b) auto
  then show ?case by (cases b) simp_all
next
  case (JNum x)
  obtain m k where x: "x = Dec m k" by (cases x)
  from JNum.prems(3) serialize_nonempty [of "JNum x"] obtain n' where n: "n = Suc n'"
    by (cases n) auto
  from JNum.prems(1) x have "k = 0 \<or> m mod 10 \<noteq> 0"
    by simp
  then show ?case
    using parseValue_number [OF _ JNum.prems(2), of k m n'] x n by simp
next
  case (JStr s)
  from JStr.prems(3) serialize_nonempty [of "JStr s"] obtain n' where n: "n = Suc n'"
    by (cases n) auto
  then show ?case
    using parseValue_string [of n' s rest] by simp
next
  case (JArr xs)
  from JArr.prems(3) obtain n' where n: "n = Suc n'"
    by (cases n) auto
  show ?case
  proof (cases "xs = []")
    case True
    with n show ?thesis
      by (simp add: skipWs_nows isWs_def)
  next
    case False
    let ?E = "joinWith '','' (map serialize xs)"
    from JArr.prems(3) n have len: "length ?E < n'"
      by simp
    have ih: "\<And>x rest n. x \<in> set xs \<Longrightarrow> delimited rest \<Longrightarrow> length (serialize x) \<le> n
                \<Longrightarrow> parseValue n (serialize x @ rest) = Inr (x, rest)"
      using JArr.IH JArr.prems(1) by (simp add: list_all_iff)
    have elems: "parseElements n' (?E @ CHR '']'' # rest) = Inr (xs, rest)"
      using ih False len by (rule parseElements_serialize)
    from False obtain x xs' where xs: "xs = x # xs'"
      by (cases xs) auto
    obtain c cs where first: "?E @ CHR '']'' # rest = c # cs" and "valueStart c"
    proof (cases xs')
      case Nil
      with xs serialize_start [of x "CHR '']'' # rest"] that show ?thesis by auto
    next
      case (Cons y ys)
      with xs serialize_start [of x "'','' @ joinWith '','' (map serialize (y # ys)) @ CHR '']'' # rest"] that
      show ?thesis by auto
    qed
    then have c: "\<not> isWs c" "c \<noteq> CHR '']''"
      by (auto simp: valueStart_def isWs_def isDigit_def)
    have "parseValue (Suc n') (CHR ''['' # ?E @ CHR '']'' # rest) = Inr (JArr xs, rest)"
      using elems unfolding first using c by (simp add: skipWs_nows)
    with n show ?thesis
      by simp
  qed
next
  case (JObj ps)
  from JObj.prems(1) have wf: "distinct (map fst ps)"
      "list_all (\<lambda>p. \<not> arrayIndexKey (fst p) \<and> jsonable (snd p)) ps"
    by simp_all
  have ser: "serialize (JObj ps) = ''{'' @ joinWith '','' (map memberText ps) @ ''}''"
    using wf(2) by (rule serialize_object)
  from JObj.prems(3) obtain n' where n: "n = Suc n'"
    by (cases n) auto
  show ?case
  proof (cases "ps = []")
    case True
    with n show ?thesis
      by (simp add: skipWs_nows isWs_def)
  next
    case False
    let ?M = "joinWith '','' (map memberText ps)"
    from JObj.prems(3) n ser have len: "length ?M < n'"
      by simp
    have ih: "\<And>p rest n. p \<in> set ps \<Longrightarrow> delimited rest \<Longrightarrow> length (serialize (snd p)) \<le> n
                \<Longrightarrow> parseValue n (serialize (snd p) @ rest) = Inr (snd p, rest)"
    proof -
      fix p :: "string \<times> jsval" and rest n
      assume p: "p \<in> set ps" and d: "delimited rest" and l: "length (serialize (snd p)) \<le> n"
      from p wf(2) have "jsonable (snd p)"
        by (auto simp: list_all_iff)
      moreover have "snd p \<in> Basic_BNFs.snds p"
        by (cases p) simp
      ultimately show "parseValue n (serialize (snd p) @ rest) = Inr (snd p, rest)"
        using JObj.IH [OF p _ _ d l] by blast
    qed
    have members: "parseMembers n' (?M @ CHR ''}'' # rest) = Inr (ps, rest)"
      using ih False len by (rule parseMembers_serialize)
    from False obtain p ps' where ps: "ps = p # ps'"
      by (cases ps) auto
    have "\<exists>cs. ?M @ CHR ''}'' # rest = CHR 0x22 # cs"
      using ps by (cases ps') (auto simp: memberText_def quoteJSON_def)
    then obtain cs where first: "?M @ CHR ''}'' # rest = CHR 0x22 # cs"
      by blast
    have "parseValue (Suc n') (CHR ''{'' # ?M @ CHR ''}'' # rest) = Inr (JObj ps, rest)"
      using members unfolding first by (simp add: skipWs_nows isWs_def objectOf_distinct [OF wf(1)])
    with n ser show ?thesis
      by simp
  qed
qed

text \<open>The text of a well-formed value parses to that value.\<close>

lemma JSON_roundtrip: "jsonable v \<Longrightarrow> JSON_parse (serialize v) = Inr v"
  using parseValue_serialize [of v "[]" "length (serialize v)"] skipWs_serialize [of v "[]"]
  by (simp add: JSON_parse_def delimited_simps skipWs_def)

section \<open>Properties of the persistence store\<close>

lemma jsonable_defined: "jsonable v \<Longrightarrow> v \<noteq> JUndefined"
  by auto

lemma load_after_save:
  assumes "jsonable X"
  shows "loadMovies (saveMovies X st) = Inr X"
proof -
  from assms have "JSON_stringify X = Some (serialize X)"
    by (simp add: JSON_stringify_def jsonable_defined)
  then have "saveMovies X st STORAGE_KEY = Some (serialize X)"
    by (simp add: saveMovies_def)
  then show ?thesis
    using JSON_roundtrip [OF assms] by (simp add: loadMovies_def serialize_nonempty)
qed

text \<open>
  C1, as the code has it. With no entry under the key, or an empty string there, loading
  gives the empty list. With a non-empty text there, loading gives whatever
  \<^verbatim>\<open>JSON.parse\<close> gives: the decoded value, which for the text of a well-formed value is
  that value; or, when the text does not decode, the error, raised to the caller.
\<close>

theorem loadMovies_decodes_or_raises:
  "(st STORAGE_KEY = None \<longrightarrow> loadMovies st = Inr (JArr []))
   \<and> (st STORAGE_KEY = Some [] \<longrightarrow> loadMovies st = Inr (JArr []))
   \<and> (st STORAGE_KEY = Some data \<and> data \<noteq> [] \<and> JSON_parse data = Inr v
        \<longrightarrow> loadMovies st = Inr v)
   \<and> (st STORAGE_KEY = Some (serialize X) \<and> jsonable X \<longrightarrow> loadMovies st = Inr X)
   \<and> (st STORAGE_KEY = Some data \<and> data \<noteq> [] \<and> JSON_parse data = Inl err
        \<longrightarrow> loadMovies st = Inl err)"
  by (auto simp: loadMovies_def serialize_nonempty JSON_roundtrip)

theorem loadMovies_decodes_or_raises_witness:
  "loadMovies Map.empty = Inr (JArr [])
   \<and> loadMovies (Map.empty(STORAGE_KEY \<mapsto> [])) = Inr (JArr [])
   \<and> loadMovies (Map.empty(STORAGE_KEY \<mapsto> '' [ 680 , 8.4 ] '')) = Inr (JArr [JInt 680, JNum (Dec 84 1)])
   \<and> loadMovies (Map.empty(STORAGE_KEY \<mapsto> serialize (JArr [JObj [(''id'', JInt 680)]])))
       = Inr (JArr [JObj [(''id'', JInt 680)]])
   \<and> loadMovies (Map.empty(STORAGE_KEY \<mapsto> ''[{'')) = Inl SyntaxError"
proof -
  let ?good = "'' [ 680 , 8.4 ] ''"
  let ?X = "JArr [JObj [(''id'', JInt 680)]]"
  have good: "JSON_parse ?good = Inr (JArr [JInt 680, JNum (Dec 84 1)])"
    by (simp add: JSON_parse_def skipWs_def isWs_def parseNumber_def parseExponent_def mkNum_def
          isDigit_def digitsVal_def digitVal_def Let_def)
  have bad: "JSON_parse ''[{'' = Inl SyntaxError"
    by (simp add: JSON_parse_def skipWs_def isWs_def)
  have X: "jsonable ?X"
    by (simp add: plainRange_def arrayIndexKey_def isDigit_def)
  have a: "loadMovies Map.empty = Inr (JArr [])"
    using loadMovies_decodes_or_raises [of Map.empty] by simp
  have b: "loadMovies (Map.empty(STORAGE_KEY \<mapsto> [])) = Inr (JArr [])"
    using loadMovies_decodes_or_raises [of "Map.empty(STORAGE_KEY \<mapsto> [])"] by simp
  have c: "loadMovies (Map.empty(STORAGE_KEY \<mapsto> ?good)) = Inr (JArr [JInt 680, JNum (Dec 84 1)])"
    using loadMovies_decodes_or_raises
      [of "Map.empty(STORAGE_KEY \<mapsto> ?good)" ?good "JArr [JInt 680, JNum (Dec 84 1)]"] good
    by simp
  have d: "loadMovies (Map.empty(STORAGE_KEY \<mapsto> serialize ?X)) = Inr ?X"
    using loadMovies_decodes_or_raises [of "Map.empty(STORAGE_KEY \<mapsto> serialize ?X)" _ _ ?X] X
    by simp
  have e: "loadMovies (Map.empty(STORAGE_KEY \<mapsto> ''[{'')) = Inl SyntaxError"
    using loadMovies_decodes_or_raises
      [of "Map.empty(STORAGE_KEY \<mapsto> ''[{'')" "''[{''" _ _ SyntaxError] bad
    by simp
  from a b c d e show ?thesis
    by blast
qed

text \<open>
  C1 as stated fails on a stored text that is not JSON, here a list cut off after its
  first brace: \<^verbatim>\<open>JSON.parse\<close> throws and \<^verbatim>\<open>loadMovies\<close> has nothing to catch it with.
\<close>

theorem loadMovies_corrupt_text_counterexample:
  "loadMovies (Map.empty(STORAGE_KEY \<mapsto> ''[{'')) \<noteq> Inr (JArr [])
   \<and> loadMovies (Map.empty(STORAGE_KEY \<mapsto> ''[{'')) = Inl SyntaxError"
  by (simp add: loadMovies_def JSON_parse_def skipWs_def isWs_def)

text \<open>
  C5. Saving a well-formed value, in particular a list of well-formed movie objects or
  the empty list, and loading gives that value back; after clearing, loading gives the
  empty list, the same as after saving the empty list.
\<close>

theorem save_load_roundtrip:
  "(jsonable X \<longrightarrow> loadMovies (saveMovies X st) = Inr X)
   \<and> (list_all (\<lambda>movie. jsonable (JObj movie)) ms
        \<longrightarrow> loadMovies (saveMovies (moviesValue ms) st) = Inr (moviesValue ms))
   \<and> loadMovies (saveMovies (moviesValue []) st) = Inr (moviesValue [])
   \<and> loadMovies (clearMovies st) = Inr (moviesValue [])
   \<and> loadMovies (clearMovies st) = loadMovies (saveMovies (moviesValue []) st)"
proof -
  have list: "list_all (\<lambda>movie. jsonable (JObj movie)) ms \<Longrightarrow> jsonable (moviesValue ms)"
    by (simp add: moviesValue_def list_all_iff)
  have empty: "loadMovies (saveMovies (moviesValue []) st) = Inr (moviesValue [])"
    by (rule load_after_save) (simp add: moviesValue_def)
  have cleared: "loadMovies (clearMovies st) = Inr (moviesValue [])"
    by (simp add: loadMovies_def clearMovies_def moviesValue_def)
  from list empty cleared show ?thesis
    by (simp add: load_after_save)
qed

theorem save_load_roundtrip_witness:
  "loadMovies (saveMovies (moviesValue
      [[(''id'', JInt 680), (''title'', JStr ''Pulp Fiction''), (''year'', JNull),
        (''voteAverage'', JNum (Dec 8488 3)), (''rating'', JInt 7)],
       [(''id'', JInt 13), (''title'', JStr ''Forrest Gump''), (''genres'', JStr ''Comedy, Drama'')]])
      Map.empty)
   = Inr (moviesValue
      [[(''id'', JInt 680), (''title'', JStr ''Pulp Fiction''), (''year'', JNull),
        (''voteAverage'', JNum (Dec 8488 3)), (''rating'', JInt 7)],
       [(''id'', JInt 13), (''title'', JStr ''Forrest Gump''), (''genres'', JStr ''Comedy, Drama'')]])"
proof -
  let ?ms = "[[(''id'', JInt 680), (''title'', JStr ''Pulp Fiction''), (''year'', JNull),
        (''voteAverage'', JNum (Dec 8488 3)), (''rating'', JInt 7)],
       [(''id'', JInt 13), (''title'', JStr ''Forrest Gump''), (''genres'', JStr ''Comedy, Drama'')]]"
  have "list_all (\<lambda>movie. jsonable (JObj movie)) ?ms"
    by (simp add: plainRange_def arrayIndexKey_def isDigit_def)
  with save_load_roundtrip [of _ Map.empty ?ms] show ?thesis
    by blast
qed

section \<open>Properties of the collection engine\<close>

lemma strictEq_JStr: "strictEq a (JStr s) = (a = JStr s)"
  by (cases a) auto

lemma strictEq_JNum: "strictEq a (JNum n) = (a = JNum n)"
  by (cases a) auto

lemma get_update_same: "get (AList.update k v m) k = v"
  by (simp add: get_def AList.update_conv')

lemma get_update_other: "k' \<noteq> k \<Longrightarrow> get (AList.update k v m) k' = get m k'"
  by (simp add: get_def AList.update_conv')

lemma update_twice: "AList.update k v (AList.update k v m) = AList.update k v m"
  by (induction m) auto

lemma filter_update_other:
  "filter (\<lambda>p. fst p \<noteq> k) (AList.update k v m) = filter (\<lambda>p. fst p \<noteq> k) m"
  by (induction m) auto

lemma spread_rating: "spread m [(''rating'', r)] = AList.update ''rating'' r m"
  by (simp add: spread_def)

lemma filterE_total:
  "\<forall>x \<in> set xs. p x = Inr (q x) \<Longrightarrow> filterE p xs = Inr (filter q xs)"
  by (induction xs) auto

lemma genreMatches_typed:
  "genresTyped m \<Longrightarrow>
   genreMatches m name = Inr (get m ''genres'' \<noteq> JStr [] \<and> genresContain name m)"
  by (auto simp: genresTyped_def genreMatches_def genresContain_def Let_def split: jsval.splits)

text \<open>
  C6. For every list, every patch and every id that is the id of no element of the list,
  updating and deleting by that id both return the list unchanged.
\<close>

theorem update_delete_unknown_id_noop:
  assumes "\<forall>movie \<in> set L. \<not> strictEq (get movie ''id'') i"
  shows "updateMovie L i patch = L \<and> deleteMovie L i = L"
  using assms by (simp add: updateMovie_def deleteMovie_def map_idI)

theorem update_delete_unknown_id_noop_witness:
  "updateMovie [[(''id'', JInt 680), (''title'', JStr ''Pulp Fiction'')], [(''id'', JInt 13)]]
       (JInt 129) [(''title'', JStr ''Spirited Away'')]
     = [[(''id'', JInt 680), (''title'', JStr ''Pulp Fiction'')], [(''id'', JInt 13)]]
   \<and> deleteMovie [[(''id'', JInt 680), (''title'', JStr ''Pulp Fiction'')], [(''id'', JInt 13)]]
       (JInt 129)
     = [[(''id'', JInt 680), (''title'', JStr ''Pulp Fiction'')], [(''id'', JInt 13)]]"
  using update_delete_unknown_id_noop
    [of "[[(''id'', JInt 680), (''title'', JStr ''Pulp Fiction'')], [(''id'', JInt 13)]]"
        "JInt 129" "[(''title'', JStr ''Spirited Away'')]"]
  by (simp add: get_def)

text \<open>
  C7. Rating is updating with the one-property patch \<open>{rating}\<close>. In the result, an element
  whose id matches has \<open>rating\<close> equal to the new value and all its other properties, in
  their order, as before; an element whose id does not match is the same element; and
  rating a second time with the same value changes nothing more.
\<close>

theorem rateMovie_frame_idempotent:
  "rateMovie L i r = updateMovie L i [(''rating'', r)]
   \<and> length (rateMovie L i r) = length L
   \<and> (\<forall>n < length L.
        if strictEq (get (L ! n) ''id'') i
        then get (rateMovie L i r ! n) ''rating'' = r
           \<and> filter (\<lambda>p. fst p \<noteq> ''rating'') (rateMovie L i r ! n)
               = filter (\<lambda>p. fst p \<noteq> ''rating'') (L ! n)
        else rateMovie L i r ! n = L ! n)
   \<and> rateMovie (rateMovie L i r) i r = rateMovie L i r"
  by (auto simp: rateMovie_def updateMovie_def spread_rating get_update_same get_update_other
        update_twice filter_update_other)

theorem rateMovie_frame_idempotent_witness:
  "0 < length [[(''id'', JInt 680), (''voteAverage'', JNum (Dec 84 1))],
               [(''id'', JInt 13), (''rating'', JInt 3)]]
   \<and> rateMovie [[(''id'', JInt 680), (''voteAverage'', JNum (Dec 84 1))],
                [(''id'', JInt 13), (''rating'', JInt 3)]] (JInt 680) (JInt 7)
       = [[(''id'', JInt 680), (''voteAverage'', JNum (Dec 84 1)), (''rating'', JInt 7)],
          [(''id'', JInt 13), (''rating'', JInt 3)]]
   \<and> rateMovie (rateMovie [[(''id'', JInt 680), (''voteAverage'', JNum (Dec 84 1))],
                           [(''id'', JInt 13), (''rating'', JInt 3)]] (JInt 680) (JInt 7))
         (JInt 680) (JInt 7)
       = [[(''id'', JInt 680), (''voteAverage'', JNum (Dec 84 1)), (''rating'', JInt 7)],
          [(''id'', JInt 13), (''rating'', JInt 3)]]"
proof -
  let ?L = "[[(''id'', JInt 680), (''voteAverage'', JNum (Dec 84 1))],
             [(''id'', JInt 13), (''rating'', JInt 3)]]"
  have first: "0 < length ?L"
    by simp
  have all: "\<forall>n < length ?L.
        if strictEq (get (?L ! n) ''id'') (JInt 680)
        then get (rateMovie ?L (JInt 680) (JInt 7) ! n) ''rating'' = JInt 7
           \<and> filter (\<lambda>p. fst p \<noteq> ''rating'') (rateMovie ?L (JInt 680) (JInt 7) ! n)
               = filter (\<lambda>p. fst p \<noteq> ''rating'') (?L ! n)
        else rateMovie ?L (JInt 680) (JInt 7) ! n = ?L ! n"
    using rateMovie_frame_idempotent [of ?L "JInt 680" "JInt 7"] by blast
  have again: "rateMovie (rateMovie ?L (JInt 680) (JInt 7)) (JInt 680) (JInt 7)
                 = rateMovie ?L (JInt 680) (JInt 7)"
    using rateMovie_frame_idempotent [of ?L "JInt 680" "JInt 7"] by blast
  have run: "rateMovie ?L (JInt 680) (JInt 7)
       = [[(''id'', JInt 680), (''voteAverage'', JNum (Dec 84 1)), (''rating'', JInt 7)],
          [(''id'', JInt 13), (''rating'', JInt 3)]]"
    by (simp add: rateMovie_def updateMovie_def spread_def get_def)
  have "strictEq (get (?L ! 0) ''id'') (JInt 680)"
    by (simp add: get_def)
  with all [rule_format, of 0] first
  have "get (rateMovie ?L (JInt 680) (JInt 7) ! 0) ''rating'' = JInt 7"
    by presburger
  with first again run show ?thesis
    by simp
qed

text \<open>
  C8, as the code has it. When every \<open>genres\<close> is a string or absent: the director filter
  keeps exactly the elements whose \<open>director\<close> equals the name; the genre filter keeps
  exactly the elements whose \<open>genres\<close> is a non-empty string containing the name; both
  results are sub-sequences of the input, so order is kept and nothing is invented.
\<close>

theorem filters_exact_subsequences:
  assumes "\<forall>m \<in> set L. genresTyped m"
  shows "listMoviesByDirector L name = spec_byDirector L name
    \<and> listMoviesByGenre L name
        = Inr (filter (\<lambda>m. get m ''genres'' \<noteq> JStr [] \<and> genresContain name m) L)
    \<and> subseq (listMoviesByDirector L name) L
    \<and> subseq (filter (\<lambda>m. get m ''genres'' \<noteq> JStr [] \<and> genresContain name m) L) L"
  using assms
  by (simp add: listMoviesByDirector_def spec_byDirector_def directorIs_def [abs_def]
        strictEq_JStr listMoviesByGenre_def filterE_total genreMatches_typed)

theorem filters_exact_subsequences_witness:
  "listMoviesByGenre
      [[(''id'', JInt 680), (''genres'', JStr ''Thriller, Crime'')],
       [(''id'', JInt 13), (''genres'', JStr ''Comedy, Drama'')],
       [(''id'', JInt 155), (''genres'', JStr ''Drama, Action, Crime'')]] ''Crime''
    = Inr [[(''id'', JInt 680), (''genres'', JStr ''Thriller, Crime'')],
           [(''id'', JInt 155), (''genres'', JStr ''Drama, Action, Crime'')]]"
  using filters_exact_subsequences
    [of "[[(''id'', JInt 680), (''genres'', JStr ''Thriller, Crime'')],
          [(''id'', JInt 13), (''genres'', JStr ''Comedy, Drama'')],
          [(''id'', JInt 155), (''genres'', JStr ''Drama, Action, Crime'')]]" "''Crime''"]
  by (simp add: genresTyped_def genresContain_def get_def sublist_code(3))

text \<open>
  C8 as stated fails for the empty name: the empty string is a substring of every string,
  also of an empty \<open>genres\<close>, yet the guard \<^verbatim>\<open>movie.genres &&\<close> drops a movie whose
  \<open>genres\<close> is empty.
\<close>

theorem byGenre_empty_name_counterexample:
  "listMoviesByGenre [[(''id'', JInt 1), (''genres'', JStr [])]] []
     \<noteq> Inr (spec_byGenre [[(''id'', JInt 1), (''genres'', JStr [])]] [])"
  by (simp add: listMoviesByGenre_def spec_byGenre_def genresContain_def genreMatches_def get_def)

text \<open>
  C10. Updating patches every element whose id matches, not only the first, and hands
  every other element back as it is; deleting keeps, in order, exactly the elements whose
  id does not match, so all matching elements go in one call.
\<close>

theorem update_delete_all_matching:
  "length (updateMovie L i p) = length L
   \<and> (\<forall>n < length L.
        updateMovie L i p ! n
          = (if strictEq (get (L ! n) ''id'') i then spread (L ! n) p else L ! n))
   \<and> subseq (deleteMovie L i) L
   \<and> set (deleteMovie L i) = {m \<in> set L. \<not> strictEq (get m ''id'') i}"
  by (auto simp: updateMovie_def deleteMovie_def)

theorem update_delete_all_matching_witness:
  "2 < length [[(''id'', JInt 5), (''title'', JStr ''a'')], [(''id'', JInt 6)], [(''id'', JInt 5)]]
   \<and> updateMovie [[(''id'', JInt 5), (''title'', JStr ''a'')], [(''id'', JInt 6)], [(''id'', JInt 5)]]
         (JInt 5) [(''title'', JStr ''b'')] ! 2
       = [(''id'', JInt 5), (''title'', JStr ''b'')]
   \<and> updateMovie [[(''id'', JInt 5), (''title'', JStr ''a'')], [(''id'', JInt 6)], [(''id'', JInt 5)]]
         (JInt 5) [(''title'', JStr ''b'')]
       = [[(''id'', JInt 5), (''title'', JStr ''b'')], [(''id'', JInt 6)],
          [(''id'', JInt 5), (''title'', JStr ''b'')]]
   \<and> deleteMovie [[(''id'', JInt 5), (''title'', JStr ''a'')], [(''id'', JInt 6)], [(''id'', JInt 5)]]
         (JInt 5)
       = [[(''id'', JInt 6)]]"
proof -
  let ?L = "[[(''id'', JInt 5), (''title'', JStr ''a'')], [(''id'', JInt 6)], [(''id'', JInt 5)]]"
  let ?p = "[(''title'', JStr ''b'')]"
  have third: "2 < length ?L"
    by simp
  have all: "\<forall>n < length ?L.
        updateMovie ?L (JInt 5) ?p ! n
          = (if strictEq (get (?L ! n) ''id'') (JInt 5) then spread (?L ! n) ?p else ?L ! n)"
    using update_delete_all_matching [of ?L "JInt 5" ?p] by blast
  have "strictEq (get (?L ! 2) ''id'') (JInt 5)"
    by (simp add: get_def)
  with all [rule_format, of 2] third have "updateMovie ?L (JInt 5) ?p ! 2 = spread (?L ! 2) ?p"
    by presburger
  then have at2: "updateMovie ?L (JInt 5) ?p ! 2 = [(''id'', JInt 5), (''title'', JStr ''b'')]"
    by (simp add: spread_def)
  have run: "updateMovie ?L (JInt 5) ?p
       = [[(''id'', JInt 5), (''title'', JStr ''b'')], [(''id'', JInt 6)],
          [(''id'', JInt 5), (''title'', JStr ''b'')]]"
    by (simp add: updateMovie_def spread_def get_def)
  have del: "deleteMovie ?L (JInt 5) = [[(''id'', JInt 6)]]"
    by (simp add: deleteMovie_def get_def)
  from third at2 run del show ?thesis
    by simp
qed

section \<open>Properties of the catalog client and of the add flow\<close>

lemma moviesValue_defined: "moviesValue ms \<noteq> JUndefined"
  by (simp add: moviesValue_def)

lemma findDirector_total:
  "list_all (\<lambda>x. \<not> nullish x) crew \<Longrightarrow> \<exists>found. findDirector crew = Inr found"
  by (induction crew) auto

lemma genresText_total: "tmdbList g \<Longrightarrow> \<exists>text. genresText g = Inr text"
  by (cases g) (auto simp: tmdbList_def genresText_def list_ex_iff list_all_iff)

lemma extractDirector_total:
  "tmdbList (field credits ''crew'') \<Longrightarrow> \<exists>d. extractDirectorFromCredits credits = Inr d"
proof (cases "field credits ''crew''")
  case (JArr crew)
  assume "tmdbList (field credits ''crew'')"
  with JArr have "list_all (\<lambda>x. \<not> nullish x) crew"
    by (simp add: tmdbList_def)
  then obtain found where "findDirector crew = Inr found"
    using findDirector_total by blast
  with JArr show ?thesis
    by (simp add: extractDirectorFromCredits_def)
qed (auto simp: tmdbList_def extractDirectorFromCredits_def)

text \<open>
  The api.js client on schema-conforming replies: the result is absent exactly when the
  details helper gave nothing, and a failed credits request leaves a record whose
  director is the sentinel.
\<close>

theorem API_fetchComplete_absent_iff_details_failed:
  assumes "tmdbList (field (getMovieDetailsFromTMDB w i) ''genres'')"
      and "tmdbList (field (getMovieCreditsFromTMDB w i) ''crew'')"
  shows "(API_fetchCompleteMovieData w i = None) = (\<not> truthy (getMovieDetailsFromTMDB w i))"
proof -
  obtain d where "extractDirectorFromCredits (getMovieCreditsFromTMDB w i) = Inr d"
    using assms(2) extractDirector_total by blast
  moreover obtain g where "genresText (field (getMovieDetailsFromTMDB w i) ''genres'') = Inr g"
    using assms(1) genresText_total by blast
  ultimately show ?thesis
    by (simp add: API_fetchCompleteMovieData_def Let_def)
qed

theorem API_fetchComplete_credits_failure_sentinel:
  assumes "tmdbList (field (getMovieDetailsFromTMDB w i) ''genres'')"
      and "truthy (getMovieDetailsFromTMDB w i)"
      and "getMovieCreditsFromTMDB w i = JNull"
  shows "\<exists>movie. API_fetchCompleteMovieData w i = Some movie
                \<and> get movie ''director'' = JStr noDirector"
proof -
  obtain g where "genresText (field (getMovieDetailsFromTMDB w i) ''genres'') = Inr g"
    using assms(1) genresText_total by blast
  with assms(2,3) show ?thesis
    by (simp add: API_fetchCompleteMovieData_def Let_def extractDirectorFromCredits_def
          API_movieObject_def get_def)
qed

text \<open>
  C2, at a request whose details arrive and whose credits request fails in transport.
  The client of api.js returns the record with the sentinel director, as the claim says;
  the copy in filmoteca.js, which awaits the credits inside the same \<^verbatim>\<open>try\<close> block,
  returns nothing.
\<close>

theorem filmoteca_fetch_absent_on_credits_failure:
  "Filmoteca_fetchCompleteMovieData
      \<lparr>detailsReply = (\<lambda>i. Reply True (Some (JObj [(''id'', i), (''title'', JStr ''Pulp Fiction'')]))),
       creditsReply = (\<lambda>i. NetworkFailure),
       Date_getFullYear = (\<lambda>d. JInt 1994)\<rparr> (JInt 680) = None
   \<and> map_option (\<lambda>movie. (get movie ''id'', get movie ''director''))
       (API_fetchCompleteMovieData
          \<lparr>detailsReply = (\<lambda>i. Reply True (Some (JObj [(''id'', i), (''title'', JStr ''Pulp Fiction'')]))),
           creditsReply = (\<lambda>i. NetworkFailure),
           Date_getFullYear = (\<lambda>d. JInt 1994)\<rparr> (JInt 680))
     = Some (JInt 680, JStr noDirector)"
  by (simp add: Filmoteca_fetchCompleteMovieData_def API_fetchCompleteMovieData_def
        getMovieDetailsFromTMDB_def getMovieCreditsFromTMDB_def extractDirectorFromCredits_def
        genresText_def field_def get_def API_movieObject_def Let_def)

text \<open>
  C3. The list a reset returns holds, for the default ids that fetched, their records in
  the order of the ids; the ids that failed are left out and the others are unaffected;
  with two failures among the ten ids the list has eight records; and that list is what
  is written to storage.
\<close>

theorem resetMovies_successful_in_request_order:
  "fst (resetMovies w st)
     = map (\<lambda>i. the (Filmoteca_fetchCompleteMovieData w i))
         (filter (\<lambda>i. Filmoteca_fetchCompleteMovieData w i \<noteq> None) DEFAULT_MOVIE_IDS)
   \<and> length (fst (resetMovies w st))
       + length (filter (\<lambda>i. Filmoteca_fetchCompleteMovieData w i = None) DEFAULT_MOVIE_IDS) = 10
   \<and> (length (filter (\<lambda>i. Filmoteca_fetchCompleteMovieData w i = None) DEFAULT_MOVIE_IDS) = 2
        \<longrightarrow> length (fst (resetMovies w st)) = 8)
   \<and> snd (resetMovies w st)
       = st(STORAGE_KEY \<mapsto> serialize (moviesValue (fst (resetMovies w st))))"
proof -
  let ?F = "Filmoteca_fetchCompleteMovieData w"
  have result: "fst (resetMovies w st)
      = map (\<lambda>i. the (?F i)) (filter (\<lambda>i. ?F i \<noteq> None) DEFAULT_MOVIE_IDS)"
    by (simp add: resetMovies_def Let_def filter_map comp_def)
  have "length (filter (\<lambda>i. ?F i \<noteq> None) DEFAULT_MOVIE_IDS)
          + length (filter (\<lambda>i. \<not> ?F i \<noteq> None) DEFAULT_MOVIE_IDS) = length DEFAULT_MOVIE_IDS"
    by (rule sum_length_filter_compl)
  moreover have "length DEFAULT_MOVIE_IDS = 10"
    by (simp add: DEFAULT_MOVIE_IDS_def)
  ultimately have count: "length (fst (resetMovies w st))
       + length (filter (\<lambda>i. ?F i = None) DEFAULT_MOVIE_IDS) = 10"
    using result by simp
  have stored: "snd (resetMovies w st)
       = st(STORAGE_KEY \<mapsto> serialize (moviesValue (fst (resetMovies w st))))"
    by (simp add: resetMovies_def Let_def saveMovies_def JSON_stringify_def moviesValue_defined)
  from result count stored show ?thesis
    by presburger
qed

theorem resetMovies_successful_in_request_order_witness:
  "length (filter (\<lambda>i. Filmoteca_fetchCompleteMovieData
        \<lparr>detailsReply = (\<lambda>i. if i = JInt 13 \<or> i = JInt 497 then NetworkFailure
                               else Reply True (Some (JObj [(''id'', i), (''title'', JStr ''t'')]))),
         creditsReply = (\<lambda>i. Reply True (Some (JObj [(''id'', i), (''crew'', JArr [])]))),
         Date_getFullYear = (\<lambda>d. JInt 1994)\<rparr> i = None) DEFAULT_MOVIE_IDS) = 2
   \<and> length (fst (resetMovies
        \<lparr>detailsReply = (\<lambda>i. if i = JInt 13 \<or> i = JInt 497 then NetworkFailure
                               else Reply True (Some (JObj [(''id'', i), (''title'', JStr ''t'')]))),
         creditsReply = (\<lambda>i. Reply True (Some (JObj [(''id'', i), (''crew'', JArr [])]))),
         Date_getFullYear = (\<lambda>d. JInt 1994)\<rparr> Map.empty)) = 8
   \<and> map (\<lambda>movie. get movie ''id'') (fst (resetMovies
        \<lparr>detailsReply = (\<lambda>i. if i = JInt 13 \<or> i = JInt 497 then NetworkFailure
                               else Reply True (Some (JObj [(''id'', i), (''title'', JStr ''t'')]))),
         creditsReply = (\<lambda>i. Reply True (Some (JObj [(''id'', i), (''crew'', JArr [])]))),
         Date_getFullYear = (\<lambda>d. JInt 1994)\<rparr> Map.empty))
       = [JInt 129, JInt 124, JInt 122, JInt 121, JInt 120, JInt 155, JInt 680, JInt 275]"
proof -
  let ?w = "\<lparr>detailsReply = (\<lambda>i. if i = JInt 13 \<or> i = JInt 497 then NetworkFailure
                               else Reply True (Some (JObj [(''id'', i), (''title'', JStr ''t'')]))),
         creditsReply = (\<lambda>i. Reply True (Some (JObj [(''id'', i), (''crew'', JArr [])]))),
         Date_getFullYear = (\<lambda>d. JInt 1994)\<rparr>"
  have fails: "\<And>i. (Filmoteca_fetchCompleteMovieData ?w i = None) = (i = JInt 13 \<or> i = JInt 497)"
    by (simp add: Filmoteca_fetchCompleteMovieData_def Filmoteca_assemble_def directorOf_def
          genresText_def field_def get_def nullish_def jsOr_def)
  have ids: "\<And>i. i \<noteq> JInt 13 \<Longrightarrow> i \<noteq> JInt 497 \<Longrightarrow>
               get (the (Filmoteca_fetchCompleteMovieData ?w i)) ''id'' = i"
    by (simp add: Filmoteca_fetchCompleteMovieData_def Filmoteca_assemble_def directorOf_def
          genresText_def field_def get_def nullish_def jsOr_def Filmoteca_movieObject_def)
  have two: "length (filter (\<lambda>i. Filmoteca_fetchCompleteMovieData ?w i = None) DEFAULT_MOVIE_IDS) = 2"
    by (simp add: fails DEFAULT_MOVIE_IDS_def)
  with resetMovies_successful_in_request_order [of ?w Map.empty]
  have eight: "length (fst (resetMovies ?w Map.empty)) = 8"
    by blast
  from resetMovies_successful_in_request_order [of ?w Map.empty]
  have "fst (resetMovies ?w Map.empty)
     = map (\<lambda>i. the (Filmoteca_fetchCompleteMovieData ?w i))
         (filter (\<lambda>i. Filmoteca_fetchCompleteMovieData ?w i \<noteq> None) DEFAULT_MOVIE_IDS)"
    by blast
  then have "map (\<lambda>movie. get movie ''id'') (fst (resetMovies ?w Map.empty))
       = [JInt 129, JInt 124, JInt 122, JInt 121, JInt 120, JInt 155, JInt 680, JInt 275]"
    by (simp add: fails ids DEFAULT_MOVIE_IDS_def)
  with two eight show ?thesis
    by blast
qed

text \<open>
  C4. When some element of the collection already has the id, both add flows show the
  rejection message and stop there: the list handed back, the page's list and storage
  are what they were, so the size is unchanged and no second entry exists.
\<close>

theorem duplicate_add_rejected_unchanged:
  assumes "movie \<in> set (movies pg)" and "strictEq (get movie ''id'') i"
  shows "API_addMovieFromTMDB w i (movies pg) b
           = (movies pg, b\<lparr>alerts := alerts b @ [msgAlreadyInCollection]\<rparr>)
       \<and> window_addMovieFromTMDB w i pg = pg\<lparr>alerts := alerts pg @ [msgAlreadyInCollection]\<rparr>
       \<and> movies (window_addMovieFromTMDB w i pg) = movies pg
       \<and> storage (window_addMovieFromTMDB w i pg) = storage pg
       \<and> storage (snd (API_addMovieFromTMDB w i (movies pg) b)) = storage b"
proof -
  from assms have "movieExists (movies pg) i"
    by (auto simp: movieExists_def list_ex_iff)
  then show ?thesis
    by (simp add: API_addMovieFromTMDB_def window_addMovieFromTMDB_def)
qed

text \<open>
  The scenario of adding the catalog record 680 twice to an empty collection: the first
  add stores one record, the second is rejected and leaves one record.
\<close>

theorem duplicate_add_rejected_unchanged_witness:
  "length (movies (window_addMovieFromTMDB
      \<lparr>detailsReply = (\<lambda>i. Reply True (Some (JObj [(''id'', i), (''title'', JStr ''Pulp Fiction'')]))),
       creditsReply = (\<lambda>i. NetworkFailure), Date_getFullYear = (\<lambda>d. JInt 1994)\<rparr>
      (JInt 680)
      (window_addMovieFromTMDB
        \<lparr>detailsReply = (\<lambda>i. Reply True (Some (JObj [(''id'', i), (''title'', JStr ''Pulp Fiction'')]))),
         creditsReply = (\<lambda>i. NetworkFailure), Date_getFullYear = (\<lambda>d. JInt 1994)\<rparr>
        (JInt 680)
        \<lparr>storage = Map.empty, alerts = [], movies = [], formsHTML = [], outputText = []\<rparr>))) = 1
   \<and> alerts (window_addMovieFromTMDB
      \<lparr>detailsReply = (\<lambda>i. Reply True (Some (JObj [(''id'', i), (''title'', JStr ''Pulp Fiction'')]))),
       creditsReply = (\<lambda>i. NetworkFailure), Date_getFullYear = (\<lambda>d. JInt 1994)\<rparr>
      (JInt 680)
      (window_addMovieFromTMDB
        \<lparr>detailsReply = (\<lambda>i. Reply True (Some (JObj [(''id'', i), (''title'', JStr ''Pulp Fiction'')]))),
         creditsReply = (\<lambda>i. NetworkFailure), Date_getFullYear = (\<lambda>d. JInt 1994)\<rparr>
        (JInt 680)
        \<lparr>storage = Map.empty, alerts = [], movies = [], formsHTML = [], outputText = []\<rparr>))
     = [msgAlreadyInCollection]"
proof -
  let ?w = "\<lparr>detailsReply = (\<lambda>i. Reply True (Some (JObj [(''id'', i), (''title'', JStr ''Pulp Fiction'')]))),
       creditsReply = (\<lambda>i. NetworkFailure), Date_getFullYear = (\<lambda>d. JInt 1994)\<rparr>"
  let ?pg0 = "\<lparr>storage = Map.empty, alerts = [], movies = [], formsHTML = [], outputText = []\<rparr>"
  let ?pg1 = "window_addMovieFromTMDB ?w (JInt 680) ?pg0"
  obtain movie where fetched: "API_fetchCompleteMovieData ?w (JInt 680) = Some movie"
      and same: "strictEq (get movie ''id'') (JInt 680)"
    by (simp add: API_fetchCompleteMovieData_def getMovieDetailsFromTMDB_def
          getMovieCreditsFromTMDB_def extractDirectorFromCredits_def genresText_def field_def
          get_def API_movieObject_def Let_def)
  from fetched have first: "movies ?pg1 = [movie]" "alerts ?pg1 = []"
    by (simp_all add: window_addMovieFromTMDB_def movieExists_def addMovie_def)
  then have present: "movie \<in> set (movies ?pg1)"
    by simp
  from duplicate_add_rejected_unchanged [OF present same, of ?w "\<lparr>storage = Map.empty, alerts = []\<rparr>"]
  have "window_addMovieFromTMDB ?w (JInt 680) ?pg1
          = ?pg1\<lparr>alerts := alerts ?pg1 @ [msgAlreadyInCollection]\<rparr>"
    by blast
  with first show ?thesis
    by simp
qed

section \<open>Properties of the rendering\<close>

lemma showNat_digit: "n < 10 \<Longrightarrow> showNat n = [digitChar n]"
  by (simp add: showNat.simps)

lemma createStars_integer_aux:
  "rating = Some (Dec r 0) \<Longrightarrow>
   createStarsHTML rating c M
     = map (\<lambda>j. if j \<le> r then StarFilled j
                else if j = r + 1 then StarPartial j 0 else StarEmpty j) [c..M]"
proof (induction rating c M rule: createStarsHTML.induct)
  case (1 rating current maxStars)
  show ?case
  proof (cases "current > maxStars")
    case True
    then show ?thesis
      by (simp add: createStarsHTML.simps [of _ current maxStars])
  next
    case False
    with 1 have "createStarsHTML rating (current + 1) maxStars
       = map (\<lambda>j. if j \<le> r then StarFilled j
                  else if j = r + 1 then StarPartial j 0 else StarEmpty j) [current + 1..maxStars]"
      by simp
    with False "1.prems" show ?thesis
      by (simp add: createStarsHTML.simps [of _ current maxStars] upto_rec1 [of current maxStars])
  qed
qed

lemma createStars_integer:
  "createStarsHTML (Some (Dec r 0)) c M
     = map (\<lambda>j. if j \<le> r then StarFilled j
                else if j = r + 1 then StarPartial j 0 else StarEmpty j) [c..M]"
  by (rule createStars_integer_aux) simp

text \<open>
  C9, as the code has it. A user rating that is an integer from 1 to 10 gives the score
  text \<open>rating/10\<close> and fills the stars up to the rating, whatever \<open>voteAverage\<close> holds.
  When the user rating is absent (or otherwise falsy) and \<open>voteAverage\<close> is a number other
  than zero, the score text is \<^verbatim>\<open>voteAverage.toFixed(1)\<close> and the stars follow
  \<open>voteAverage\<close>.
\<close>

theorem rating_precedes_voteAverage:
  "(get movie ''rating'' = JInt r \<and> 1 \<le> r \<and> r \<le> 10 \<longrightarrow>
      scoreText toFixed movie = Inr (showNat (nat r) @ ''/10'')
    \<and> movieStars StringToNumber movie
        = map (\<lambda>j. if j \<le> r then StarFilled j
                   else if j = r + 1 then StarPartial j 0 else StarEmpty j) [1..10])
   \<and> (\<not> truthy (get movie ''rating'') \<and> get movie ''voteAverage'' = JNum (Dec m k) \<and> m \<noteq> 0 \<longrightarrow>
      scoreText toFixed movie = Inr (toFixed (Dec m k) 1)
    \<and> movieStars StringToNumber movie = createStarsHTML (Some (Dec m k)) 1 10)"
proof (intro conjI impI)
  assume a: "get movie ''rating'' = JInt r \<and> 1 \<le> r \<and> r \<le> 10"
  then have "showNum (Dec r 0) = showNat (nat r)"
    by simp
  moreover have "showNum (Dec maxStars 0) = ''10''"
    by (simp add: maxStars_def showNat.simps digitChar_def)
  ultimately show "scoreText toFixed movie = Inr (showNat (nat r) @ ''/10'')"
    using a by (simp add: scoreText_def)
  from a show "movieStars StringToNumber movie
        = map (\<lambda>j. if j \<le> r then StarFilled j
                   else if j = r + 1 then StarPartial j 0 else StarEmpty j) [1..10]"
    by (simp add: movieStars_def displayRating_def jsOr_def toNumber_def maxStars_def
          createStars_integer)
next
  assume b: "\<not> truthy (get movie ''rating'') \<and> get movie ''voteAverage'' = JNum (Dec m k) \<and> m \<noteq> 0"
  then show "scoreText toFixed movie = Inr (toFixed (Dec m k) 1)"
    by (simp add: scoreText_def)
  from b show "movieStars StringToNumber movie = createStarsHTML (Some (Dec m k)) 1 10"
    by (simp add: movieStars_def displayRating_def jsOr_def toNumber_def maxStars_def)
qed

theorem rating_precedes_voteAverage_witness:
  "scoreText toFixedDec
      [(''id'', JInt 680), (''voteAverage'', JNum (Dec 84 1)), (''rating'', JInt 7)] = Inr ''7/10''
   \<and> movieStars (\<lambda>s. None)
      [(''id'', JInt 680), (''voteAverage'', JNum (Dec 84 1)), (''rating'', JInt 7)]
       = [StarFilled 1, StarFilled 2, StarFilled 3, StarFilled 4, StarFilled 5, StarFilled 6,
          StarFilled 7, StarPartial 8 0, StarEmpty 9, StarEmpty 10]
   \<and> scoreText toFixedDec [(''id'', JInt 680), (''voteAverage'', JNum (Dec 84 1))] = Inr ''8.4''
   \<and> movieStars (\<lambda>s. None) [(''id'', JInt 680), (''voteAverage'', JNum (Dec 84 1))]
       = [StarFilled 1, StarFilled 2, StarFilled 3, StarFilled 4, StarFilled 5, StarFilled 6,
          StarFilled 7, StarFilled 8, StarPartial 9 40, StarEmpty 10]"
proof -
  let ?rated = "[(''id'', JInt 680), (''voteAverage'', JNum (Dec 84 1)), (''rating'', JInt 7)]"
  let ?unrated = "[(''id'', JInt 680), (''voteAverage'', JNum (Dec 84 1))]"
  have r: "get ?rated ''rating'' = JInt 7 \<and> (1::int) \<le> 7 \<and> (7::int) \<le> 10"
    by (simp add: get_def)
  have u: "\<not> truthy (get ?unrated ''rating'') \<and> get ?unrated ''voteAverage'' = JNum (Dec 84 1)
           \<and> (84::int) \<noteq> 0"
    by (simp add: get_def)
  from r rating_precedes_voteAverage [of ?rated 7 toFixedDec "\<lambda>s. None" 84 1]
  have r1: "scoreText toFixedDec ?rated = Inr (showNat (nat 7) @ ''/10'')"
   and r2: "movieStars (\<lambda>s. None) ?rated
        = map (\<lambda>j. if j \<le> 7 then StarFilled j
                   else if j = 7 + 1 then StarPartial j 0 else StarEmpty j) [1..10]"
    by blast+
  from u rating_precedes_voteAverage [of ?unrated 7 toFixedDec "\<lambda>s. None" 84 1]
  have u1: "scoreText toFixedDec ?unrated = Inr (toFixedDec (Dec 84 1) 1)"
   and u2: "movieStars (\<lambda>s. None) ?unrated = createStarsHTML (Some (Dec 84 1)) 1 10"
    by blast+
  have "showNat (nat 7) @ ''/10'' = ''7/10''"
    by (simp add: showNat.simps digitChar_def)
  moreover have "map (\<lambda>j. if j \<le> 7 then StarFilled j
                   else if j = 7 + 1 then StarPartial j 0 else StarEmpty j) [1..10]
       = [StarFilled 1, StarFilled 2, StarFilled 3, StarFilled 4, StarFilled 5, StarFilled 6,
          StarFilled 7, StarPartial 8 0, StarEmpty 9, StarEmpty 10]"
    by (simp add: upto.simps)
  moreover have "toFixedDec (Dec 84 1) 1 = ''8.4''"
    by (simp add: showNat.simps digitChar_def)
  moreover have "createStarsHTML (Some (Dec 84 1)) 1 10
       = [StarFilled 1, StarFilled 2, StarFilled 3, StarFilled 4, StarFilled 5, StarFilled 6,
          StarFilled 7, StarFilled 8, StarPartial 9 40, StarEmpty 10]"
    by (simp add: createStarsHTML.simps)
  ultimately show ?thesis
    using r1 r2 u1 u2 by simp
qed

text \<open>
  C9 as stated fails for a \<open>voteAverage\<close> of zero, which is a present value of the 0 to 10
  scale: \<^verbatim>\<open>movie.voteAverage ? ... : ''\<close> takes zero for absent, and the score text is
  empty instead of \<open>0.0\<close>.
\<close>

theorem voteAverage_zero_counterexample:
  "scoreText toFixedDec [(''id'', JInt 1), (''voteAverage'', JInt 0)]
     \<noteq> Inr (toFixedDec (Dec 0 0) 1)
   \<and> scoreShown toFixedDec [(''id'', JInt 1), (''voteAverage'', JInt 0)] = Inr None"
  by (simp add: scoreShown_def scoreText_def get_def showNat.simps digitChar_def)

end
